theory Spec2Isabelle
  imports Complex_Main "HOL-Library.Char_ord" "HOL-Library.List_Lexorder"
begin

section \<open>Values of the math library and the configured constants\<close>

text \<open>
  \<open>glm::vec3\<close> and \<open>glm::vec4\<close> are tuples of numbers. C++ \<open>float\<close> and \<open>double\<close> are
  read as \<open>real\<close>: rounding is not modelled. \<open>glm::mat4\<close> is kept symbolic: a matrix
  is a handle, the default-constructed \<open>glm::mat4()\<close>, the composition of a transform,
  or a product; no matrix arithmetic is evaluated.
\<close>

datatype vec3 = Vec3 (vec_x: real) (vec_y: real) (vec_z: real)

datatype vec4 = Vec4 real real real real

datatype mat4 =
    Mat nat
  | Mat4Default
  | Transform vec3 vec3 vec3
  | Times mat4 mat4

text \<open>\<open>operator-\<close> of \<open>glm::vec3\<close>.\<close>

definition vec3_minus :: "vec3 \<Rightarrow> vec3 \<Rightarrow> vec3" where
  "vec3_minus a b = Vec3 (vec_x a - vec_x b) (vec_y a - vec_y b) (vec_z a - vec_z b)"

text \<open>constants.cpp\<close>

definition WINDOW_WIDTH :: int where "WINDOW_WIDTH = 800"
definition WINDOW_HEIGHT :: int where "WINDOW_HEIGHT = 600"
definition MAX_CONE_LIGHTS :: int where "MAX_CONE_LIGHTS = 4"
definition MAX_POINT_LIGHTS :: int where "MAX_POINT_LIGHTS = 6"
definition VIEWPORT_WIDTH :: int where "VIEWPORT_WIDTH = WINDOW_WIDTH"
definition VIEWPORT_HEIGHT :: int where "VIEWPORT_HEIGHT = WINDOW_HEIGHT"
definition FRAMEBUFFER_WIDTH :: int where "FRAMEBUFFER_WIDTH = VIEWPORT_WIDTH * 2"
definition FRAMEBUFFER_HEIGHT :: int where "FRAMEBUFFER_HEIGHT = VIEWPORT_HEIGHT * 2"

text \<open>
  \<open>std::to_string\<close> on a loop index: the decimal digits, most significant first.
\<close>

fun to_string :: "nat \<Rightarrow> string" where
  "to_string n =
     (if n < 10 then [''0123456789'' ! n]
      else to_string (n div 10) @ [''0123456789'' ! (n mod 10)])"

declare to_string.simps [simp del]

section \<open>Entities\<close>

text \<open>
  The classes \<open>LightBase\<close>, \<open>ModelBase\<close> and \<open>CameraBase\<close> are declared outside the
  sources at hand; the records below hold what their getters return to the render
  manager and to the shot. A \<open>std::shared_ptr\<close> handed to the render manager is
  identified with the object it points to (rendering only reads the entities) and is
  never null.
\<close>

datatype ShadowBufferType = SIMPLE | CUBE

record LightBase =
  getLightId :: string
  getLightPosition :: vec3
  getLightColor :: vec3
  getLightIntensity :: real
  getNearPlane :: real
  getFarPlane :: real
  getViewMatrices :: "mat4 list"
  getProjectionMatrices :: "mat4 list"
  getShadowBufferId :: nat
  getShadowBufferTextureId :: nat
  getShadowBufferType :: ShadowBufferType
  getLightShaderId :: int

record ModelBase =
  getModelId :: string
  getModelName :: string
  getModelPosition :: vec3
  getModelRotation :: vec3
  getModelScale :: vec3
  getShaderId :: int
  getTextureId :: nat
  getVertexBufferId :: nat
  getUvBufferId :: nat
  getNormalBufferId :: nat
  getBufferSize :: nat

text \<open>
  Modelled from the spec: \<open>ModelBase::getModelMatrix\<close> (models/model_base.cpp is not
  among the sources), the world transform (position, rotation, scale) composed into a
  model matrix.
\<close>

definition getModelMatrix :: "ModelBase \<Rightarrow> mat4" where
  "getModelMatrix m = Transform (getModelPosition m) (getModelRotation m) (getModelScale m)"

record CameraBase =
  getCameraId :: string
  getViewMatrix :: mat4
  getProjectionMatrix :: mat4

section \<open>The registries: \<open>std::map<std::string, std::shared_ptr<T>>\<close>\<close>

text \<open>
  A \<open>std::map\<close> keyed by \<open>std::string\<close> is a list of entries in ascending key order
  (bytewise lexicographic, as \<open>std::less<std::string>\<close> compares). \<open>insert\<close> adds
  the entry only when no entry has its key; \<open>erase\<close> by key removes the entry with that
  key when there is one; \<open>find\<close> looks a key up.
\<close>

type_synonym 'v registry = "(string \<times> 'v) list"

definition map_find :: "string \<Rightarrow> 'v registry \<Rightarrow> 'v option" where
  "map_find k r = map_of r k"

definition map_insert :: "string \<times> 'v \<Rightarrow> 'v registry \<Rightarrow> 'v registry" where
  "map_insert e r = (if fst e \<in> fst ` set r then r else insort_key fst e r)"

definition map_erase :: "string \<Rightarrow> 'v registry \<Rightarrow> 'v registry" where
  "map_erase k r = filter (\<lambda>e. fst e \<noteq> k) r"

text \<open>The representation invariant of a \<open>std::map\<close>: keys strictly ascending.\<close>

definition ordered :: "'v registry \<Rightarrow> bool" where
  "ordered r = (sorted (map fst r) \<and> distinct (map fst r))"

section \<open>The render manager: registration\<close>

record RenderManager =
  activeCameraId :: string
  deadSimpleLight :: "LightBase option"
  deadCubeLight :: "LightBase option"
  registeredLights :: "LightBase registry"
  registeredModels :: "ModelBase registry"
  registeredCameras :: "CameraBase registry"
  startTime :: real
  lastTime :: real

definition registerDeadSimpleLight :: "LightBase \<Rightarrow> RenderManager \<Rightarrow> RenderManager" where
  "registerDeadSimpleLight light rm = rm\<lparr>deadSimpleLight := Some light\<rparr>"

definition registerDeadCubeLight :: "LightBase \<Rightarrow> RenderManager \<Rightarrow> RenderManager" where
  "registerDeadCubeLight light rm = rm\<lparr>deadCubeLight := Some light\<rparr>"

definition registerLight :: "LightBase \<Rightarrow> RenderManager \<Rightarrow> RenderManager" where
  "registerLight light rm =
     rm\<lparr>registeredLights := map_insert (getLightId light, light) (registeredLights rm)\<rparr>"

text \<open>\<open>deregisterLight(std::shared_ptr<LightBase>)\<close> and \<open>deregisterLight(std::string)\<close>.\<close>

definition deregisterLight :: "LightBase \<Rightarrow> RenderManager \<Rightarrow> RenderManager" where
  "deregisterLight light rm =
     rm\<lparr>registeredLights := map_erase (getLightId light) (registeredLights rm)\<rparr>"

definition deregisterLightId :: "string \<Rightarrow> RenderManager \<Rightarrow> RenderManager" where
  "deregisterLightId lightId rm =
     rm\<lparr>registeredLights := map_erase lightId (registeredLights rm)\<rparr>"

definition registerModel :: "ModelBase \<Rightarrow> RenderManager \<Rightarrow> RenderManager" where
  "registerModel model rm =
     rm\<lparr>registeredModels := map_insert (getModelId model, model) (registeredModels rm)\<rparr>"

definition deregisterModel :: "ModelBase \<Rightarrow> RenderManager \<Rightarrow> RenderManager" where
  "deregisterModel model rm =
     rm\<lparr>registeredModels := map_erase (getModelId model) (registeredModels rm)\<rparr>"

definition deregisterModelId :: "string \<Rightarrow> RenderManager \<Rightarrow> RenderManager" where
  "deregisterModelId modelId rm =
     rm\<lparr>registeredModels := map_erase modelId (registeredModels rm)\<rparr>"

definition registerCamera :: "CameraBase \<Rightarrow> RenderManager \<Rightarrow> RenderManager" where
  "registerCamera camera rm =
     rm\<lparr>registeredCameras := map_insert (getCameraId camera, camera) (registeredCameras rm)\<rparr>"

definition deregisterCamera :: "CameraBase \<Rightarrow> RenderManager \<Rightarrow> RenderManager" where
  "deregisterCamera camera rm =
     rm\<lparr>registeredCameras := map_erase (getCameraId camera) (registeredCameras rm)\<rparr>"

definition deregisterCameraId :: "string \<Rightarrow> RenderManager \<Rightarrow> RenderManager" where
  "deregisterCameraId cameraId rm =
     rm\<lparr>registeredCameras := map_erase cameraId (registeredCameras rm)\<rparr>"

definition registerActiveCamera :: "CameraBase \<Rightarrow> RenderManager \<Rightarrow> RenderManager" where
  "registerActiveCamera camera rm = rm\<lparr>activeCameraId := getCameraId camera\<rparr>"

definition registerActiveCameraId :: "string \<Rightarrow> RenderManager \<Rightarrow> RenderManager" where
  "registerActiveCameraId cameraId rm = rm\<lparr>activeCameraId := cameraId\<rparr>"

section \<open>The calls issued to the window manager and to OpenGL\<close>

text \<open>
  A frame is observed as the sequence of calls it issues. \<open>glActiveTexture\<close> carries the
  offset from \<open>GL_TEXTURE0\<close>; \<open>clearScreen\<close> is always called with
  \<open>GL_COLOR_BUFFER_BIT | GL_DEPTH_BUFFER_BIT\<close>; \<open>glBindBuffer\<close> always targets
  \<open>GL_ARRAY_BUFFER\<close>; \<open>glDrawArrays\<close> always draws \<open>GL_TRIANGLES\<close> from 0. A
  uniform location is identified with the program and the name given to
  \<open>glGetUniformLocation\<close>, which is a query and leaves no call behind.
\<close>

datatype gl_target = GL_TEXTURE_2D | GL_TEXTURE_CUBE_MAP

type_synonym uniform = "int \<times> string"

datatype gl_call =
    switchToFrameBufferViewport
  | switchToWindowViewport
  | setClearColor vec4
  | clearScreen
  | glBindFramebuffer nat
  | glUseProgram int
  | glUniform1i uniform int
  | glUniform1f uniform real
  | glUniform3f uniform real real real
  | glUniformMatrix4fv uniform mat4
  | glActiveTexture nat
  | glBindTexture gl_target nat
  | glEnableVertexAttribArray nat
  | glBindBuffer nat
  | glVertexAttribPointer nat nat
  | glDisableVertexAttribArray nat
  | glDrawArrays nat

definition glGetUniformLocation :: "int \<Rightarrow> string \<Rightarrow> uniform" where
  "glGetUniformLocation program name = (program, name)"

text \<open>
  A run of rendering code: the calls issued, and either the value returned or the reason
  the process stopped (a null \<open>shared_ptr\<close> dereferenced, a vector indexed out of
  range, \<open>exit(1)\<close> in \<open>createAttributeId\<close>). The calls issued before the stop stay.
\<close>

datatype error = NullPointer | OutOfRange | AttributeIdsExhausted

type_synonym 'a run = "gl_call list \<times> (error + 'a)"

definition emit :: "gl_call list \<Rightarrow> unit run" where
  "emit cs = (cs, Inr ())"

definition andThen :: "'a run \<Rightarrow> ('a \<Rightarrow> 'b run) \<Rightarrow> 'b run" where
  "andThen m f =
     (case m of
        (t, Inl e) \<Rightarrow> (t, Inl e)
      | (t, Inr a) \<Rightarrow> (case f a of (t', r) \<Rightarrow> (t @ t', r)))"

text \<open>A \<open>for\<close> loop over a sequence, the loop-carried variables passed along.\<close>

fun forEach :: "('a \<Rightarrow> 's \<Rightarrow> 's run) \<Rightarrow> 'a list \<Rightarrow> 's \<Rightarrow> 's run" where
  "forEach body [] s = ([], Inr s)"
| "forEach body (x # xs) s = andThen (body x s) (forEach body xs)"

section \<open>\<open>VertexAttributeArray\<close>\<close>

text \<open>
  The static \<open>attributeIds\<close> is passed in and out. \<open>createAttributeId\<close> returns the
  least identifier below \<open>std::numeric_limits<GLuint>::max()\<close> that is not taken, and
  exits the process when there is none.
\<close>

record VertexAttributeArray =
  attributeId :: nat
  attributeName :: string
  bufferId :: nat
  bufferElementSize :: nat

function createAttributeId_from :: "nat set \<Rightarrow> nat \<Rightarrow> nat option" where
  "createAttributeId_from attributeIds i =
     (if i < 4294967295
      then (if i \<notin> attributeIds then Some i else createAttributeId_from attributeIds (i + 1))
      else None)"
  by pat_completeness auto
termination
  by (relation "measure (\<lambda>(attributeIds, i). 4294967295 - i)") auto

declare createAttributeId_from.simps [simp del]

definition createAttributeId :: "nat set \<Rightarrow> nat option" where
  "createAttributeId attributeIds = createAttributeId_from attributeIds 0"

text \<open>The constructor, \<open>enableAttribute\<close> and the destructor.\<close>

definition VertexAttributeArray_new ::
  "string \<Rightarrow> nat \<Rightarrow> nat \<Rightarrow> nat set \<Rightarrow> (VertexAttributeArray \<times> nat set) run" where
  "VertexAttributeArray_new name buffer elementSize attributeIds =
     (case createAttributeId attributeIds of
        None \<Rightarrow> ([], Inl AttributeIdsExhausted)
      | Some i \<Rightarrow>
          ([], Inr (\<lparr>attributeId = i, attributeName = name, bufferId = buffer,
                      bufferElementSize = elementSize\<rparr>, insert i attributeIds)))"

definition enableAttribute :: "VertexAttributeArray \<Rightarrow> gl_call list" where
  "enableAttribute a =
     [glEnableVertexAttribArray (attributeId a),
      glBindBuffer (bufferId a),
      glVertexAttribPointer (attributeId a) (bufferElementSize a)]"

definition VertexAttributeArray_delete ::
  "VertexAttributeArray \<Rightarrow> nat set \<Rightarrow> nat set run" where
  "VertexAttributeArray_delete a attributeIds =
     ([glDisableVertexAttribArray (attributeId a)], Inr (attributeIds - {attributeId a}))"

section \<open>The render manager: the shadow pass\<close>

record LightDetails =
  lightPosition :: vec3
  lightVpMatrix :: mat4
  lightColor :: vec3
  lightIntensity :: real
  mapWidth :: int
  mapHeight :: int
  nearPlane :: real
  farPlane :: real
  textureId :: nat

text \<open>
  The initialiser of \<open>lightDetails\<close> in \<open>renderLights\<close>. Element 0 of the projection
  and view matrices is read: an empty vector stops the run.
\<close>

definition lightDetailsOf :: "LightBase \<Rightarrow> error + LightDetails" where
  "lightDetailsOf light =
     (case (getProjectionMatrices light, getViewMatrices light) of
        (projection0 # _, view0 # _) \<Rightarrow>
          Inr \<lparr>lightPosition = getLightPosition light,
               lightVpMatrix = Times (Times projection0 view0) Mat4Default,
               lightColor = getLightColor light,
               lightIntensity = getLightIntensity light,
               mapWidth = FRAMEBUFFER_WIDTH,
               mapHeight = FRAMEBUFFER_WIDTH,
               nearPlane = getNearPlane light,
               farPlane = getFarPlane light,
               textureId = getShadowBufferTextureId light\<rparr>
      | _ \<Rightarrow> Inl OutOfRange)"

text \<open>The uniforms uploaded for each model before the matrices of the views.\<close>

definition shadowUniforms :: "int \<Rightarrow> nat \<Rightarrow> LightDetails \<Rightarrow> ModelBase \<Rightarrow> gl_call list" where
  "shadowUniforms program vpMatrixCount lightDetails model =
     [glUniform1i (glGetUniformLocation program ''lightDetails_vertex.vpMatrixCount'')
        (int vpMatrixCount),
      glUniform1i (glGetUniformLocation program ''lightDetails_geometry.vpMatrixCount'')
        (int vpMatrixCount),
      glUniform1i (glGetUniformLocation program ''lightDetails_fragment.vpMatrixCount'')
        (int vpMatrixCount),
      glUniform3f (glGetUniformLocation program ''lightDetails_vertex.lightPosition'')
        (vec_x (lightPosition lightDetails)) (vec_y (lightPosition lightDetails))
        (vec_z (lightPosition lightDetails)),
      glUniform3f (glGetUniformLocation program ''lightDetails_geometry.lightPosition'')
        (vec_x (lightPosition lightDetails)) (vec_y (lightPosition lightDetails))
        (vec_z (lightPosition lightDetails)),
      glUniform3f (glGetUniformLocation program ''lightDetails_fragment.lightPosition'')
        (vec_x (lightPosition lightDetails)) (vec_y (lightPosition lightDetails))
        (vec_z (lightPosition lightDetails)),
      glUniform1f (glGetUniformLocation program ''projectionDetails_vertex.nearPlane'')
        (nearPlane lightDetails),
      glUniform1f (glGetUniformLocation program ''projectionDetails_geometry.nearPlane'')
        (nearPlane lightDetails),
      glUniform1f (glGetUniformLocation program ''projectionDetails_fragment.nearPlane'')
        (nearPlane lightDetails),
      glUniform1f (glGetUniformLocation program ''projectionDetails_vertex.farPlane'')
        (farPlane lightDetails),
      glUniform1f (glGetUniformLocation program ''projectionDetails_geometry.farPlane'')
        (farPlane lightDetails),
      glUniform1f (glGetUniformLocation program ''projectionDetails_fragment.farPlane'')
        (farPlane lightDetails),
      glUniformMatrix4fv (glGetUniformLocation program ''modelMatrix'') (getModelMatrix model)]"

text \<open>
  One round of the loop over the views: \<open>viewMatrices[i]\<close> is in range by the loop
  bound, \<open>projectionMatrices[i]\<close> need not be.
\<close>

definition uploadVpMatrix :: "int \<Rightarrow> mat4 list \<Rightarrow> mat4 list \<Rightarrow> nat \<Rightarrow> unit \<Rightarrow> unit run" where
  "uploadVpMatrix program projectionMatrices viewMatrices i u =
     (if i < length projectionMatrices
      then emit
        [glUniformMatrix4fv
           (glGetUniformLocation program (''lightDetails_vertex.vpMatrices['' @ to_string i @ '']''))
           (Times (projectionMatrices ! i) (viewMatrices ! i)),
         glUniformMatrix4fv
           (glGetUniformLocation program (''lightDetails_geometry.vpMatrices['' @ to_string i @ '']''))
           (Times (projectionMatrices ! i) (viewMatrices ! i)),
         glUniformMatrix4fv
           (glGetUniformLocation program (''lightDetails_fragment.vpMatrices['' @ to_string i @ '']''))
           (Times (projectionMatrices ! i) (viewMatrices ! i))]
      else ([], Inl OutOfRange))"

text \<open>
  The body of the loop over the registered models, for one light. The vertex array
  lives for one round: it is released when the round ends.
\<close>

definition renderLightModel ::
  "LightBase \<Rightarrow> LightDetails \<Rightarrow> ModelBase \<Rightarrow> nat set \<Rightarrow> nat set run" where
  "renderLightModel light lightDetails model attributeIds =
     andThen (emit (shadowUniforms (getLightShaderId light) (length (getViewMatrices light))
                      lightDetails model)) (\<lambda>_.
     andThen (forEach (uploadVpMatrix (getLightShaderId light) (getProjectionMatrices light)
                         (getViewMatrices light))
                [0..<length (getViewMatrices light)] ()) (\<lambda>_.
     andThen (VertexAttributeArray_new ''VertexArray'' (getVertexBufferId model) 3 attributeIds)
       (\<lambda>(vertexArray, attributeIds1).
     andThen (emit (enableAttribute vertexArray @ [glDrawArrays (getBufferSize model)])) (\<lambda>_.
     VertexAttributeArray_delete vertexArray attributeIds1))))"

text \<open>
  The body of the loop over the registered lights. The loop carries the cached shader
  program, the lights collected so far by type, and the attribute identifiers.
\<close>

type_synonym categorized = "ShadowBufferType \<Rightarrow> LightDetails list"

definition renderLight ::
  "ModelBase list \<Rightarrow> LightBase \<Rightarrow> int \<times> categorized \<times> nat set
     \<Rightarrow> (int \<times> categorized \<times> nat set) run" where
  "renderLight models light st =
     (case st of (shaderId, categorizedLights, attributeIds) \<Rightarrow>
      (case lightDetailsOf light of
         Inl e \<Rightarrow> ([], Inl e)
       | Inr lightDetails \<Rightarrow>
           andThen (emit ([glBindFramebuffer (getShadowBufferId light), clearScreen]
                      @ (if shaderId \<noteq> getLightShaderId light
                         then [glUseProgram (getLightShaderId light)] else []))) (\<lambda>_.
           andThen (forEach (renderLightModel light lightDetails) models attributeIds)
             (\<lambda>attributeIds1.
           andThen (emit [glBindFramebuffer 0]) (\<lambda>_.
           ([], Inr (getLightShaderId light,
                     categorizedLights(getShadowBufferType light :=
                       categorizedLights (getShadowBufferType light) @ [lightDetails]),
                     attributeIds1)))))))"

definition renderLights :: "RenderManager \<Rightarrow> nat set \<Rightarrow> (categorized \<times> nat set) run" where
  "renderLights rm attributeIds =
     andThen (emit [switchToFrameBufferViewport, setClearColor (Vec4 1 1 1 1)]) (\<lambda>_.
     andThen (forEach (renderLight (map snd (registeredModels rm)))
                (map snd (registeredLights rm)) (- 1, (\<lambda>t. []), attributeIds))
       (\<lambda>(shaderId, categorizedLights, attributeIds1).
     ([], Inr (categorizedLights, attributeIds1))))"

section \<open>The render manager: the main pass\<close>

text \<open>
  The fields of one light uploaded in the loops over the simple and the cube lights;
  \<open>kind\<close> is \<open>simple\<close> or \<open>cube\<close>, the two loops being the same but for this prefix
  of the uniform names.
\<close>

definition lightUniforms :: "string \<Rightarrow> int \<Rightarrow> nat \<Rightarrow> LightDetails \<Rightarrow> gl_call list" where
  "lightUniforms kind program i lightDetails =
     [glUniform3f
        (glGetUniformLocation program (kind @ ''LightDetails_vertex['' @ to_string i @ ''].lightPosition''))
        (vec_x (lightPosition lightDetails)) (vec_y (lightPosition lightDetails))
        (vec_z (lightPosition lightDetails)),
      glUniform3f
        (glGetUniformLocation program (kind @ ''LightDetails_fragment['' @ to_string i @ ''].lightPosition''))
        (vec_x (lightPosition lightDetails)) (vec_y (lightPosition lightDetails))
        (vec_z (lightPosition lightDetails)),
      glUniformMatrix4fv
        (glGetUniformLocation program (kind @ ''LightDetails_vertex['' @ to_string i @ ''].lightVpMatrix''))
        (lightVpMatrix lightDetails),
      glUniformMatrix4fv
        (glGetUniformLocation program (kind @ ''LightDetails_fragment['' @ to_string i @ ''].lightVpMatrix''))
        (lightVpMatrix lightDetails),
      glUniform3f
        (glGetUniformLocation program (kind @ ''LightDetails_vertex['' @ to_string i @ ''].lightColor''))
        (vec_x (lightColor lightDetails)) (vec_y (lightColor lightDetails))
        (vec_z (lightColor lightDetails)),
      glUniform3f
        (glGetUniformLocation program (kind @ ''LightDetails_fragment['' @ to_string i @ ''].lightColor''))
        (vec_x (lightColor lightDetails)) (vec_y (lightColor lightDetails))
        (vec_z (lightColor lightDetails)),
      glUniform1f
        (glGetUniformLocation program (kind @ ''LightDetails_vertex['' @ to_string i @ ''].lightIntensity''))
        (lightIntensity lightDetails),
      glUniform1f
        (glGetUniformLocation program (kind @ ''LightDetails_fragment['' @ to_string i @ ''].lightIntensity''))
        (lightIntensity lightDetails),
      glUniform1i
        (glGetUniformLocation program (kind @ ''LightDetails_vertex['' @ to_string i @ ''].mapWidth''))
        (mapWidth lightDetails),
      glUniform1i
        (glGetUniformLocation program (kind @ ''LightDetails_fragment['' @ to_string i @ ''].mapWidth''))
        (mapWidth lightDetails),
      glUniform1i
        (glGetUniformLocation program (kind @ ''LightDetails_vertex['' @ to_string i @ ''].mapHeight''))
        (mapHeight lightDetails),
      glUniform1i
        (glGetUniformLocation program (kind @ ''LightDetails_fragment['' @ to_string i @ ''].mapHeight''))
        (mapHeight lightDetails),
      glUniform1f
        (glGetUniformLocation program (kind @ ''LightDetails_vertex['' @ to_string i @ ''].nearPlane''))
        (nearPlane lightDetails),
      glUniform1f
        (glGetUniformLocation program (kind @ ''LightDetails_fragment['' @ to_string i @ ''].nearPlane''))
        (nearPlane lightDetails),
      glUniform1f
        (glGetUniformLocation program (kind @ ''LightDetails_vertex['' @ to_string i @ ''].farPlane''))
        (farPlane lightDetails),
      glUniform1f
        (glGetUniformLocation program (kind @ ''LightDetails_fragment['' @ to_string i @ ''].farPlane''))
        (farPlane lightDetails)]"

text \<open>
  One round of the loop over the simple lights (\<open>i\<close> from 0 to their number). Loop
  indices and counts are natural numbers: the \<open>int\<close> and \<open>size_t\<close> of the source do
  not wrap on the number of lights a scene holds.
\<close>

definition simpleLightSlot :: "int \<Rightarrow> LightDetails list \<Rightarrow> nat \<Rightarrow> gl_call list" where
  "simpleLightSlot program simpleLights i =
     lightUniforms ''simple'' program i (simpleLights ! i)
     @ [glActiveTexture (i + 1),
        glBindTexture GL_TEXTURE_2D (textureId (simpleLights ! i)),
        glUniform1i (glGetUniformLocation program (''simpleLightTextures['' @ to_string i @ '']''))
          (int (i + 1))]"

text \<open>
  One round of the loop that fills the simple slots left, up to 7, from the dead simple
  light; the dead light is dereferenced after \<open>glActiveTexture\<close> was called.
\<close>

definition deadSimpleLightSlot :: "LightBase option \<Rightarrow> int \<Rightarrow> nat \<Rightarrow> unit \<Rightarrow> unit run" where
  "deadSimpleLightSlot dead program i u =
     (case dead of
        None \<Rightarrow> ([glActiveTexture (i + 1)], Inl NullPointer)
      | Some deadLight \<Rightarrow>
          emit [glActiveTexture (i + 1),
                glBindTexture GL_TEXTURE_2D (getShadowBufferTextureId deadLight),
                glUniform1i
                  (glGetUniformLocation program (''simpleLightTextures['' @ to_string i @ '']''))
                  (int (i + 1))])"

text \<open>One round of the loop over the cube lights.\<close>

definition cubeLightSlot :: "int \<Rightarrow> nat \<Rightarrow> LightDetails list \<Rightarrow> nat \<Rightarrow> gl_call list" where
  "cubeLightSlot program simpleCount cubeLights i =
     lightUniforms ''cube'' program i (cubeLights ! i)
     @ [glActiveTexture (i + 8),
        glBindTexture GL_TEXTURE_CUBE_MAP (textureId (cubeLights ! i)),
        glUniform1i (glGetUniformLocation program (''cubeLightTextures['' @ to_string i @ '']''))
          (int (simpleCount + i + 8))]"

text \<open>One round of the loop that fills the cube slots left, up to 8, from the dead cube light.\<close>

definition deadCubeLightSlot ::
  "LightBase option \<Rightarrow> int \<Rightarrow> nat \<Rightarrow> nat \<Rightarrow> unit \<Rightarrow> unit run" where
  "deadCubeLightSlot dead program simpleCount i u =
     (case dead of
        None \<Rightarrow> ([glActiveTexture (i + 8)], Inl NullPointer)
      | Some deadLight \<Rightarrow>
          emit [glActiveTexture (i + 8),
                glBindTexture GL_TEXTURE_CUBE_MAP (getShadowBufferTextureId deadLight),
                glUniform1i
                  (glGetUniformLocation program (''cubeLightTextures['' @ to_string i @ '']''))
                  (int (simpleCount + i + 8))])"

text \<open>The uniforms and the diffuse texture of a model, uploaded before its lights.\<close>

definition modelUniforms ::
  "categorized \<Rightarrow> real \<Rightarrow> real \<Rightarrow> real \<Rightarrow> mat4 \<Rightarrow> mat4 \<Rightarrow> ModelBase \<Rightarrow> gl_call list" where
  "modelUniforms categorizedLights ambientFactor totalTime deltaTime viewMatrix projectionMatrix model =
     [glUniformMatrix4fv (glGetUniformLocation (getShaderId model) ''modelDetails.modelMatrix'')
        (getModelMatrix model),
      glUniformMatrix4fv (glGetUniformLocation (getShaderId model) ''modelDetails.viewMatrix'')
        viewMatrix,
      glUniformMatrix4fv (glGetUniformLocation (getShaderId model) ''modelDetails.projectionMatrix'')
        projectionMatrix,
      glUniformMatrix4fv (glGetUniformLocation (getShaderId model) ''modelDetails.mvpMatrix'')
        (Times (Times (Times projectionMatrix viewMatrix) (getModelMatrix model)) Mat4Default),
      glUniform1f (glGetUniformLocation (getShaderId model) ''timeDetails.totalTime'') totalTime,
      glUniform1f (glGetUniformLocation (getShaderId model) ''timeDetails.deltaTime'') deltaTime,
      glUniform1f (glGetUniformLocation (getShaderId model) ''ambientFactor'') ambientFactor,
      glUniform1i (glGetUniformLocation (getShaderId model) ''simpleLightsCount'')
        (int (length (categorizedLights SIMPLE))),
      glUniform1i (glGetUniformLocation (getShaderId model) ''cubeLightsCount'')
        (int (length (categorizedLights CUBE))),
      glActiveTexture 0,
      glBindTexture GL_TEXTURE_2D (getTextureId model),
      glUniform1i (glGetUniformLocation (getShaderId model) ''diffuseTexture'') 0]"

definition ambientFactor :: real where
  "ambientFactor = 0.25"

text \<open>
  The end of a round of the loop over the registered models in \<open>renderModels\<close>: the
  three vertex arrays are constructed, enabled, the model is drawn, and the arrays are
  released in the reverse order of their construction as the round ends.
\<close>

definition drawModel :: "ModelBase \<Rightarrow> nat set \<Rightarrow> nat set run" where
  "drawModel model attributeIds =
     andThen (VertexAttributeArray_new ''VertexArray'' (getVertexBufferId model) 3 attributeIds)
       (\<lambda>(vertexArray, attributeIds1).
     andThen (VertexAttributeArray_new ''UvArray'' (getUvBufferId model) 2 attributeIds1)
       (\<lambda>(uvArray, attributeIds2).
     andThen (VertexAttributeArray_new ''NormalArray'' (getNormalBufferId model) 3 attributeIds2)
       (\<lambda>(normalArray, attributeIds3).
     andThen (emit (enableAttribute vertexArray @ enableAttribute uvArray
                @ enableAttribute normalArray @ [glDrawArrays (getBufferSize model)])) (\<lambda>_.
     andThen (VertexAttributeArray_delete normalArray attributeIds3) (\<lambda>attributeIds4.
     andThen (VertexAttributeArray_delete uvArray attributeIds4) (\<lambda>attributeIds5.
     VertexAttributeArray_delete vertexArray attributeIds5))))))"

text \<open>
  The body of the loop over the registered models in \<open>renderModels\<close>. The loop carries
  the cached shader program and the attribute identifiers.
\<close>

definition renderModel ::
  "RenderManager \<Rightarrow> categorized \<Rightarrow> real \<Rightarrow> real \<Rightarrow> mat4 \<Rightarrow> mat4 \<Rightarrow> ModelBase
     \<Rightarrow> int \<times> nat set \<Rightarrow> (int \<times> nat set) run" where
  "renderModel rm categorizedLights totalTime deltaTime viewMatrix projectionMatrix model st =
     (case st of (shaderId, attributeIds) \<Rightarrow>
      andThen (emit ((if shaderId \<noteq> getShaderId model then [glUseProgram (getShaderId model)] else [])
                 @ modelUniforms categorizedLights ambientFactor totalTime deltaTime
                     viewMatrix projectionMatrix model
                 @ concat (map (simpleLightSlot (getShaderId model) (categorizedLights SIMPLE))
                     [0..<length (categorizedLights SIMPLE)]))) (\<lambda>_.
      andThen (forEach (deadSimpleLightSlot (deadSimpleLight rm) (getShaderId model))
                 [length (categorizedLights SIMPLE)..<7] ()) (\<lambda>_.
      andThen (emit (concat (map (cubeLightSlot (getShaderId model)
                                    (length (categorizedLights SIMPLE)) (categorizedLights CUBE))
                 [0..<length (categorizedLights CUBE)]))) (\<lambda>_.
      andThen (forEach (deadCubeLightSlot (deadCubeLight rm) (getShaderId model)
                          (length (categorizedLights SIMPLE)))
                 [length (categorizedLights CUBE)..<8] ()) (\<lambda>_.
      andThen (drawModel model attributeIds) (\<lambda>attributeIds1.
      ([], Inr (getShaderId model, attributeIds1))))))))"

text \<open>
  \<open>renderModels\<close>: \<open>currentTime\<close> is what \<open>glfwGetTime\<close> returns. The active camera is
  looked up with \<open>operator[]\<close>, which yields a null pointer when no camera has the
  identifier; the pointer is dereferenced at once.
\<close>

definition renderModels ::
  "real \<Rightarrow> categorized \<Rightarrow> RenderManager \<Rightarrow> nat set \<Rightarrow> (RenderManager \<times> nat set) run" where
  "renderModels currentTime categorizedLights rm attributeIds =
     andThen (emit [switchToWindowViewport, setClearColor (Vec4 0 0 0 1), clearScreen]) (\<lambda>_.
     (case map_find (activeCameraId rm) (registeredCameras rm) of
        None \<Rightarrow> ([], Inl NullPointer)
      | Some activeCamera \<Rightarrow>
          andThen (forEach (renderModel rm categorizedLights
                              (currentTime - startTime rm) (currentTime - lastTime rm)
                              (getViewMatrix activeCamera) (getProjectionMatrix activeCamera))
                     (map snd (registeredModels rm)) (- 1, attributeIds))
            (\<lambda>(shaderId, attributeIds1).
          ([], Inr (rm\<lparr>lastTime := currentTime\<rparr>, attributeIds1)))))"

text \<open>\<open>render\<close>: the shadow pass, then the main pass on what it collected.\<close>

definition render :: "real \<Rightarrow> RenderManager \<Rightarrow> nat set \<Rightarrow> (RenderManager \<times> nat set) run" where
  "render currentTime rm attributeIds =
     andThen (renderLights rm attributeIds) (\<lambda>(categorizedLights, attributeIds1).
     renderModels currentTime categorizedLights rm attributeIds1)"

text \<open>
  What the texture units hold after a sequence of calls: \<open>glBindTexture\<close> binds to the
  unit selected by the last \<open>glActiveTexture\<close>. \<open>texture_binds u cs\<close> lists each
  binding of \<open>cs\<close> as (unit, target, texture), \<open>u\<close> being the unit active before.
\<close>

fun texture_binds :: "nat \<Rightarrow> gl_call list \<Rightarrow> (nat \<times> gl_target \<times> nat) list" where
  "texture_binds u [] = []"
| "texture_binds u (glActiveTexture v # cs) = texture_binds v cs"
| "texture_binds u (glBindTexture t x # cs) = (u, t, x) # texture_binds u cs"
| "texture_binds u (c # cs) = texture_binds u cs"

fun active_unit :: "nat \<Rightarrow> gl_call list \<Rightarrow> nat" where
  "active_unit u [] = u"
| "active_unit u (glActiveTexture v # cs) = active_unit v cs"
| "active_unit u (c # cs) = active_unit u cs"

text \<open>The values uploaded with \<open>glUniform1i\<close> to the uniform of a given name.\<close>

fun uploads1i :: "string \<Rightarrow> gl_call list \<Rightarrow> int list" where
  "uploads1i name [] = []"
| "uploads1i name (glUniform1i l v # cs) =
     (if snd l = name then v # uploads1i name cs else uploads1i name cs)"
| "uploads1i name (c # cs) = uploads1i name cs"

text \<open>
  Kinds of calls: a call that binds a texture (the main pass sampling a shadow map), a
  call that binds a framebuffer (the shadow pass directing its output), and a draw call.
\<close>

fun binds_texture :: "gl_call \<Rightarrow> bool" where
  "binds_texture (glBindTexture t x) = True"
| "binds_texture c = False"

fun binds_framebuffer :: "gl_call \<Rightarrow> bool" where
  "binds_framebuffer (glBindFramebuffer b) = True"
| "binds_framebuffer c = False"

fun draws :: "gl_call \<Rightarrow> bool" where
  "draws (glDrawArrays n) = True"
| "draws c = False"

text \<open>
  The calls of \<open>render\<close> that its second statement issues: those of \<open>renderModels\<close> on
  what \<open>renderLights\<close> returned, and none when \<open>renderLights\<close> did not return.
\<close>

definition mainPass :: "real \<Rightarrow> RenderManager \<Rightarrow> nat set \<Rightarrow> gl_call list" where
  "mainPass currentTime rm attributeIds =
     (case snd (renderLights rm attributeIds) of
        Inl e \<Rightarrow> []
      | Inr (categorizedLights, attributeIds1) \<Rightarrow>
          fst (renderModels currentTime categorizedLights rm attributeIds1))"

section \<open>A small scene for concrete runs\<close>

definition sun :: LightBase where
  "sun = \<lparr>getLightId = ''sun'', getLightPosition = Vec3 0 10 0, getLightColor = Vec3 1 1 1,
     getLightIntensity = 1, getNearPlane = 1, getFarPlane = 100,
     getViewMatrices = [Mat 1], getProjectionMatrices = [Mat 2],
     getShadowBufferId = 11, getShadowBufferTextureId = 21,
     getShadowBufferType = SIMPLE, getLightShaderId = 5\<rparr>"

definition lamp :: LightBase where
  "lamp = \<lparr>getLightId = ''lamp'', getLightPosition = Vec3 0 2 0, getLightColor = Vec3 1 1 0,
     getLightIntensity = 3, getNearPlane = 1, getFarPlane = 50,
     getViewMatrices = [Mat 10, Mat 11, Mat 12, Mat 13, Mat 14, Mat 15],
     getProjectionMatrices = [Mat 3, Mat 3, Mat 3, Mat 3, Mat 3, Mat 3],
     getShadowBufferId = 12, getShadowBufferTextureId = 22,
     getShadowBufferType = CUBE, getLightShaderId = 6\<rparr>"

definition deadSimple :: LightBase where
  "deadSimple = sun\<lparr>getLightId := ''deadSimple'', getShadowBufferId := 13,
     getShadowBufferTextureId := 23\<rparr>"

definition deadCube :: LightBase where
  "deadCube = lamp\<lparr>getLightId := ''deadCube'', getShadowBufferId := 14,
     getShadowBufferTextureId := 24\<rparr>"

definition crate :: ModelBase where
  "crate = \<lparr>getModelId = ''crate'', getModelName = ''Crate'',
     getModelPosition = Vec3 0 0 0, getModelRotation = Vec3 0 0 0, getModelScale = Vec3 1 1 1,
     getShaderId = 7, getTextureId = 31, getVertexBufferId = 41, getUvBufferId = 42,
     getNormalBufferId = 43, getBufferSize = 36\<rparr>"

definition eye :: CameraBase where
  "eye = \<lparr>getCameraId = ''eye'', getViewMatrix = Mat 50, getProjectionMatrix = Mat 51\<rparr>"

definition emptyManager :: RenderManager where
  "emptyManager = \<lparr>activeCameraId = [], deadSimpleLight = None, deadCubeLight = None,
     registeredLights = [], registeredModels = [], registeredCameras = [],
     startTime = 0, lastTime = 0\<rparr>"

definition scene :: RenderManager where
  "scene = registerActiveCamera eye (registerCamera eye (registerModel crate
     (registerLight lamp (registerLight sun
       (registerDeadCubeLight deadCube (registerDeadSimpleLight deadSimple emptyManager))))))"

text \<open>What the shadow pass collects for the two lights of the scene.\<close>

definition sunDetails :: LightDetails where
  "sunDetails = \<lparr>lightPosition = Vec3 0 10 0,
     lightVpMatrix = Times (Times (Mat 2) (Mat 1)) Mat4Default,
     lightColor = Vec3 1 1 1, lightIntensity = 1, mapWidth = 1600, mapHeight = 1600,
     nearPlane = 1, farPlane = 100, textureId = 21\<rparr>"

definition lampDetails :: LightDetails where
  "lampDetails = \<lparr>lightPosition = Vec3 0 2 0,
     lightVpMatrix = Times (Times (Mat 3) (Mat 10)) Mat4Default,
     lightColor = Vec3 1 1 0, lightIntensity = 3, mapWidth = 1600, mapHeight = 1600,
     nearPlane = 1, farPlane = 50, textureId = 22\<rparr>"

fun sceneLights :: categorized where
  "sceneLights SIMPLE = [sunDetails]"
| "sceneLights CUBE = [lampDetails]"

text \<open>The calls of the main pass for the one model of the scene, at time 1.\<close>

definition crateCalls :: "gl_call list" where
  "crateCalls = fst (renderModel scene sceneLights 1 1 (Mat 50) (Mat 51) crate (- 1, {}))"

text \<open>The bindings of a target on the units after the diffuse unit 0.\<close>

definition shadow_slots :: "gl_target \<Rightarrow> (nat \<times> gl_target \<times> nat) list \<Rightarrow> (nat \<times> nat) list" where
  "shadow_slots t bs = map (\<lambda>(u, t', x). (u, x)) (filter (\<lambda>(u, t', x). t' = t \<and> 0 < u) bs)"

section \<open>The shot: \<open>ShotModel\<close>\<close>

text \<open>
  Models and lights are shared objects: the managers hold pointers to them, and a shot
  changes its own position and the position of its light in place. The world is an
  explicit store. An address stands for a non-null \<open>std::shared_ptr\<close>; \<open>modelHeap\<close> holds
  the \<open>ModelBase\<close> part of the model at an address, \<open>shotHeap\<close> the members that
  \<open>ShotModel\<close> adds, \<open>lightHeap\<close> the lights, and \<open>freeLight\<close> is the address that the next
  \<open>std::make_shared\<close> of a light returns. The static members \<open>isShotLightPresent\<close> and
  \<open>lastShotLightChange\<close> of \<open>ShotModel\<close> are one pair for the whole world.
\<close>

type_synonym addr = nat

record ShotModel =
  lastTime :: real
  shotLight :: "addr option"

record World =
  modelHeap :: "addr \<Rightarrow> ModelBase"
  shotHeap :: "addr \<Rightarrow> ShotModel"
  lightHeap :: "addr \<Rightarrow> LightBase"
  freeLight :: addr
  modelManager :: "addr registry"
  lightManager :: "addr registry"
  isShotLightPresent :: bool
  lastShotLightChange :: real

text \<open>
  What a shot calls in code that is not among the sources and that the spec leaves to
  the environment: the collision test of \<open>DeepCollisionValidator\<close> applied to the collider
  shapes of two models, the factory of point lights, and the setter of a light's position.
\<close>

record Collaborators =
  haveShapesCollided :: "ModelBase \<Rightarrow> ModelBase \<Rightarrow> bool"
  PointLight_create :: "string \<Rightarrow> LightBase"
  setLightPosition :: "vec3 \<Rightarrow> LightBase \<Rightarrow> LightBase"

text \<open>
  Modelled from the spec: \<open>ModelManager\<close> and \<open>LightManager\<close> (include/models.cpp and
  include/light.cpp are not among the sources). Each owns a registry: register inserts or
  overwrites by identifier, deregister removes by identifier and is a no-op when the
  identifier is absent, \<open>getAll\<close> returns the current entries in identifier order, and
  none has a side effect beyond the registry.
\<close>

definition map_assign :: "string \<times> 'v \<Rightarrow> 'v registry \<Rightarrow> 'v registry" where
  "map_assign e r = insort_key fst e (map_erase (fst e) r)"

definition getAllModels :: "World \<Rightarrow> addr list" where
  "getAllModels w = map snd (modelManager w)"

definition modelManager_deregisterModelId :: "string \<Rightarrow> World \<Rightarrow> World" where
  "modelManager_deregisterModelId modelId w =
     w\<lparr>modelManager := map_erase modelId (modelManager w)\<rparr>"

definition modelManager_deregisterModel :: "addr \<Rightarrow> World \<Rightarrow> World" where
  "modelManager_deregisterModel model w =
     modelManager_deregisterModelId (getModelId (modelHeap w model)) w"

definition lightManager_registerLight :: "addr \<Rightarrow> World \<Rightarrow> World" where
  "lightManager_registerLight light w =
     w\<lparr>lightManager := map_assign (getLightId (lightHeap w light), light) (lightManager w)\<rparr>"

definition lightManager_deregisterLight :: "addr \<Rightarrow> World \<Rightarrow> World" where
  "lightManager_deregisterLight light w =
     w\<lparr>lightManager := map_erase (getLightId (lightHeap w light)) (lightManager w)\<rparr>"

text \<open>
  Modelled from the spec: the setters \<open>setModelPosition\<close> and \<open>setModelScale\<close> of
  \<open>ModelBase\<close>, which replace one part of the world transform of the model.
\<close>

definition setModelPosition :: "addr \<Rightarrow> vec3 \<Rightarrow> World \<Rightarrow> World" where
  "setModelPosition this p w =
     w\<lparr>modelHeap := (modelHeap w)(this := (modelHeap w this)\<lparr>getModelPosition := p\<rparr>)\<rparr>"

definition setModelScale :: "addr \<Rightarrow> vec3 \<Rightarrow> World \<Rightarrow> World" where
  "setModelScale this p w =
     w\<lparr>modelHeap := (modelHeap w)(this := (modelHeap w this)\<lparr>getModelScale := p\<rparr>)\<rparr>"

text \<open>\<open>shotLight->setLightPosition(getModelPosition())\<close>; nothing when there is no light.\<close>

definition moveShotLight :: "Collaborators \<Rightarrow> addr \<Rightarrow> World \<Rightarrow> World" where
  "moveShotLight env this w =
     (case shotLight (shotHeap w this) of
        None \<Rightarrow> w
      | Some light \<Rightarrow>
          w\<lparr>lightHeap := (lightHeap w)(light :=
               setLightPosition env (getModelPosition (modelHeap w this)) (lightHeap w light))\<rparr>)"

definition destroyShotLight :: "addr \<Rightarrow> World \<Rightarrow> World" where
  "destroyShotLight this w =
     (case shotLight (shotHeap w this) of
        None \<Rightarrow> w
      | Some light \<Rightarrow>
          (lightManager_deregisterLight light w)
            \<lparr>shotHeap := (shotHeap w)(this := (shotHeap w this)\<lparr>shotLight := None\<rparr>)\<rparr>)
     \<lparr>isShotLightPresent := False\<rparr>"

definition createShotLight :: "Collaborators \<Rightarrow> addr \<Rightarrow> World \<Rightarrow> World" where
  "createShotLight env this w =
     (let w1 = destroyShotLight this w;
          light = freeLight w1;
          w2 = w1\<lparr>lightHeap := (lightHeap w1)(light :=
                    PointLight_create env (getModelId (modelHeap w1 this) @ ''::ShotLight'')),
                 freeLight := light + 1,
                 shotHeap := (shotHeap w1)(this := (shotHeap w1 this)\<lparr>shotLight := Some light\<rparr>)\<rparr>;
          w3 = moveShotLight env this w2;
          w4 = lightManager_registerLight light w3
      in w4\<lparr>isShotLightPresent := True\<rparr>)"

text \<open>
  \<open>updateShotLight\<close>. After \<open>createShotLight\<close> the shot has a light, so the light that
  is moved in the first branch is never null.
\<close>

definition updateShotLight :: "Collaborators \<Rightarrow> addr \<Rightarrow> World \<Rightarrow> World" where
  "updateShotLight env this w =
     (if isShotLightPresent w
      then moveShotLight env this
             (if shotLight (shotHeap w this) = None then createShotLight env this w else w)
      else if shotLight (shotHeap w this) \<noteq> None then destroyShotLight this w
      else w)"

definition init :: "Collaborators \<Rightarrow> addr \<Rightarrow> World \<Rightarrow> World" where
  "init env this w =
     (let w1 = setModelScale this (Vec3 0.5 0.5 0.5) w
      in if isShotLightPresent w1 then createShotLight env this w1 else w1)"

definition deinit :: "addr \<Rightarrow> World \<Rightarrow> World" where
  "deinit this w =
     (if isShotLightPresent w then (destroyShotLight this w)\<lparr>isShotLightPresent := True\<rparr> else w)"

text \<open>
  The loop of \<open>update\<close> over the snapshot \<open>models\<close> returned by \<open>getAllModels\<close>: the
  first model named \<open>Enemy\<close> that the shot has collided with is deregistered, then the
  shot, and the loop is left.
\<close>

fun collisionLoop :: "Collaborators \<Rightarrow> addr \<Rightarrow> addr list \<Rightarrow> World \<Rightarrow> World" where
  "collisionLoop env this [] w = w"
| "collisionLoop env this (model # rest) w =
     (if getModelName (modelHeap w model) = ''Enemy''
      then (if haveShapesCollided env (modelHeap w this) (modelHeap w model)
            then modelManager_deregisterModelId (getModelId (modelHeap w this))
                   (modelManager_deregisterModel model w)
            else collisionLoop env this rest w)
      else collisionLoop env this rest w)"

text \<open>
  The part of \<open>update\<close> between the boundary check and the collision loop: the toggle
  of the shot light on the key H, the move, and the update of the shot light.
  \<open>deltaTime\<close> is \<open>currentTime - lastTime\<close>.
\<close>

definition advance :: "Collaborators \<Rightarrow> real \<Rightarrow> bool \<Rightarrow> addr \<Rightarrow> World \<Rightarrow> World" where
  "advance env currentTime keyH this w =
     (let deltaTime = currentTime - lastTime (shotHeap w this);
          w1 = (if keyH \<and> currentTime - lastShotLightChange w > 0.5
                then w\<lparr>isShotLightPresent := \<not> isShotLightPresent w,
                       lastShotLightChange := currentTime\<rparr>
                else w);
          w2 = setModelPosition this
                 (vec3_minus (getModelPosition (modelHeap w1 this)) (Vec3 0.0 0.0 (100.0 * deltaTime)))
                 w1
      in updateShotLight env this w2)"

text \<open>
  \<open>update\<close>: \<open>currentTime\<close> is what \<open>glfwGetTime\<close> returns and \<open>keyH\<close> what
  \<open>isKeyPressed(GLFW_KEY_H)\<close> returns. A shot beyond the threshold is deregistered and
  the call returns at once; otherwise the last statement stores the time of this update.
\<close>

definition update :: "Collaborators \<Rightarrow> real \<Rightarrow> bool \<Rightarrow> addr \<Rightarrow> World \<Rightarrow> World" where
  "update env currentTime keyH this w =
     (if vec_z (getModelPosition (modelHeap w this)) < - 50.0
      then modelManager_deregisterModelId (getModelId (modelHeap w this)) w
      else
        (let w3 = advance env currentTime keyH this w;
             w4 = collisionLoop env this (getAllModels w3) w3
         in w4\<lparr>shotHeap := (shotHeap w4)(this := (shotHeap w4 this)\<lparr>lastTime := currentTime\<rparr>)\<rparr>))"

text \<open>
  The first registered model, in the order of the registry, that is named \<open>Enemy\<close> and
  that the shot has collided with.
\<close>

definition firstCollision :: "Collaborators \<Rightarrow> addr \<Rightarrow> World \<Rightarrow> addr option" where
  "firstCollision env this w =
     find (\<lambda>model. getModelName (modelHeap w model) = ''Enemy''
                  \<and> haveShapesCollided env (modelHeap w this) (modelHeap w model))
       (getAllModels w)"

section \<open>A small battlefield for concrete runs\<close>

text \<open>
  Collaborators for concrete runs: two models have collided when their positions are at
  most 1 apart; a new point light is the lamp under the given identifier.
\<close>

definition spheresTouch :: "ModelBase \<Rightarrow> ModelBase \<Rightarrow> bool" where
  "spheresTouch a b =
     ((vec_x (getModelPosition a) - vec_x (getModelPosition b))\<^sup>2
      + (vec_y (getModelPosition a) - vec_y (getModelPosition b))\<^sup>2
      + (vec_z (getModelPosition a) - vec_z (getModelPosition b))\<^sup>2 \<le> 1)"

definition lampNamed :: "string \<Rightarrow> LightBase" where
  "lampNamed lightId = lamp\<lparr>getLightId := lightId\<rparr>"

definition placeLight :: "vec3 \<Rightarrow> LightBase \<Rightarrow> LightBase" where
  "placeLight p light = light\<lparr>getLightPosition := p\<rparr>"

definition collaborators :: Collaborators where
  "collaborators = \<lparr>haveShapesCollided = spheresTouch, PointLight_create = lampNamed,
     setLightPosition = placeLight\<rparr>"

definition bullet :: ModelBase where
  "bullet = crate\<lparr>getModelId := ''shot1'', getModelName := ''Shot'',
     getModelPosition := Vec3 0 0 (- 10)\<rparr>"

definition enemyA :: ModelBase where
  "enemyA = crate\<lparr>getModelId := ''enemyA'', getModelName := ''Enemy'',
     getModelPosition := Vec3 0 0 (- 10.5)\<rparr>"

definition enemyB :: ModelBase where
  "enemyB = crate\<lparr>getModelId := ''enemyB'', getModelName := ''Enemy'',
     getModelPosition := Vec3 0 0 (- 11)\<rparr>"

definition enemyC :: ModelBase where
  "enemyC = crate\<lparr>getModelId := ''enemyC'', getModelName := ''Enemy'',
     getModelPosition := Vec3 30 0 (- 10)\<rparr>"

fun battlefieldModels :: "addr \<Rightarrow> ModelBase" where
  "battlefieldModels 0 = bullet"
| "battlefieldModels (Suc 0) = enemyA"
| "battlefieldModels (Suc (Suc 0)) = enemyB"
| "battlefieldModels (Suc (Suc (Suc 0))) = enemyC"
| "battlefieldModels a = crate"

text \<open>
  The shot at address 0 with two enemies within reach and one out of reach, all
  registered; the shot has no light yet and was last updated at time 0.
\<close>

definition battlefield :: World where
  "battlefield = \<lparr>modelHeap = battlefieldModels,
     shotHeap = (\<lambda>a. \<lparr>lastTime = 0, shotLight = None\<rparr>),
     lightHeap = (\<lambda>a. lamp), freeLight = 0,
     modelManager = [(''enemyA'', 1), (''enemyB'', 2), (''enemyC'', 3), (''shot1'', 0)],
     lightManager = [], isShotLightPresent = True, lastShotLightChange = - 1\<rparr>"

text \<open>The same world with the shot at \<open>z = -49.9\<close>, and with the shot at \<open>z = -50.5\<close>.\<close>

definition nearBoundary :: World where
  "nearBoundary = setModelPosition 0 (Vec3 0 0 (- 49.9)) battlefield"

definition beyondBoundary :: World where
  "beyondBoundary = setModelPosition 0 (Vec3 0 0 (- 50.5)) battlefield"

section \<open>Properties of the registries\<close>

lemma map_find_insert_present:
  "map_find (fst e) r = Some v \<Longrightarrow> map_insert e r = r"
  by (auto simp: map_find_def map_insert_def dest: map_of_SomeD intro: rev_image_eqI)

lemma set_insort_key_fst: "set (insort_key fst e r) = insert e (set r)"
  by (simp add: set_insort_key)

lemma map_find_insert_absent:
  assumes "map_find (fst e) r = None"
  shows "map_find (fst e) (map_insert e r) = Some (snd e)"
proof -
  have notin: "fst e \<notin> fst ` set r"
    using assms by (simp add: map_find_def map_of_eq_None_iff)
  have "map_of (insort_key fst e r) (fst e) = Some (snd e)"
  proof (induction r)
    case Nil
    show ?case by (cases e) simp
  next
    case (Cons a r)
    then show ?case by (cases e; cases a) auto
  qed
  then show ?thesis using notin by (simp add: map_find_def map_insert_def)
qed

lemma map_erase_absent: "map_find k r = None \<Longrightarrow> map_erase k r = r"
  by (induction r) (auto simp: map_find_def map_erase_def split: if_splits)

lemma map_erase_idem: "map_erase k (map_erase k r) = map_erase k r"
  by (simp add: map_erase_def)

lemma map_find_erase: "map_find k (map_erase k r) = None"
  by (induction r) (auto simp: map_find_def map_erase_def)

lemma map_find_erase_other: "k' \<noteq> k \<Longrightarrow> map_find k' (map_erase k r) = map_find k' r"
  by (induction r) (auto simp: map_find_def map_erase_def)

lemma map_find_erase_erase: "map_find k (map_erase k' (map_erase k r)) = None"
  by (cases "k = k'") (simp_all add: map_find_erase map_find_erase_other)

lemma ordered_map_erase: "ordered r \<Longrightarrow> ordered (map_erase k r)"
  by (simp add: ordered_def map_erase_def sorted_filter distinct_map_filter)

lemma map_fst_insort_key: "map fst (insort_key fst e r) = insort (fst e) (map fst r)"
  by (induction r) auto

lemma ordered_map_insert: "ordered r \<Longrightarrow> ordered (map_insert e r)"
  by (simp add: ordered_def map_insert_def map_fst_insort_key sorted_insort distinct_insort)

section \<open>Registration in the render manager\<close>

lemma scene_lights: "registeredLights scene = [(''lamp'', lamp), (''sun'', sun)]"
  by (simp add: scene_def emptyManager_def registerActiveCamera_def registerCamera_def
      registerModel_def registerLight_def registerDeadCubeLight_def
      registerDeadSimpleLight_def map_insert_def sun_def lamp_def)

lemma scene_models: "registeredModels scene = [(''crate'', crate)]"
  by (simp add: scene_def emptyManager_def registerActiveCamera_def registerCamera_def
      registerModel_def registerLight_def registerDeadCubeLight_def
      registerDeadSimpleLight_def map_insert_def crate_def)

lemma scene_cameras: "registeredCameras scene = [(''eye'', eye)]"
  by (simp add: scene_def emptyManager_def registerActiveCamera_def registerCamera_def
      registerModel_def registerLight_def registerDeadCubeLight_def
      registerDeadSimpleLight_def map_insert_def eye_def)

text \<open>
  C1 (as the spec states it, refuted). Registering a second light under the identifier
  \<open>sun\<close> does not replace the first: \<open>std::map::insert\<close> keeps the entry that is
  there, so the lookup after the second registration still returns the first light.
\<close>

theorem register_duplicate_overwrites_counterexample:
  "map_find ''sun''
     (registeredLights (registerLight (sun\<lparr>getLightIntensity := 2\<rparr>) (registerLight sun emptyManager)))
     = Some sun
   \<and> sun \<noteq> sun\<lparr>getLightIntensity := 2\<rparr>"
  by (simp add: registerLight_def emptyManager_def map_insert_def map_find_def sun_def)

text \<open>
  C1 (amended). For each of the three registries of the render manager (lights, models,
  cameras), taken on its own and whatever the other two hold, and for every entity whose
  identifier already has an entry in it, register leaves the render manager as it was:
  the prior entry stays and a subsequent lookup returns the entity registered first
  (first write wins). No error is reported: register returns the manager and nothing
  else.
\<close>

theorem register_existing_keeps_prior:
  "(map_find (getLightId light) (registeredLights lightsOf) = Some light0 \<longrightarrow>
      registerLight light lightsOf = lightsOf
      \<and> map_find (getLightId light) (registeredLights (registerLight light lightsOf))
          = Some light0)
   \<and> (map_find (getModelId model) (registeredModels modelsOf) = Some model0 \<longrightarrow>
      registerModel model modelsOf = modelsOf
      \<and> map_find (getModelId model) (registeredModels (registerModel model modelsOf))
          = Some model0)
   \<and> (map_find (getCameraId camera) (registeredCameras camerasOf) = Some camera0 \<longrightarrow>
      registerCamera camera camerasOf = camerasOf
      \<and> map_find (getCameraId camera) (registeredCameras (registerCamera camera camerasOf))
          = Some camera0)"
proof (intro conjI impI)
  assume a: "map_find (getLightId light) (registeredLights lightsOf) = Some light0"
  have l: "map_insert (getLightId light, light) (registeredLights lightsOf)
      = registeredLights lightsOf"
    using a map_find_insert_present [of "(getLightId light, light)"] by simp
  show "registerLight light lightsOf = lightsOf"
    by (simp add: registerLight_def l)
  show "map_find (getLightId light) (registeredLights (registerLight light lightsOf))
      = Some light0"
    using a by (simp add: registerLight_def l)
next
  assume a: "map_find (getModelId model) (registeredModels modelsOf) = Some model0"
  have m: "map_insert (getModelId model, model) (registeredModels modelsOf)
      = registeredModels modelsOf"
    using a map_find_insert_present [of "(getModelId model, model)"] by simp
  show "registerModel model modelsOf = modelsOf"
    by (simp add: registerModel_def m)
  show "map_find (getModelId model) (registeredModels (registerModel model modelsOf))
      = Some model0"
    using a by (simp add: registerModel_def m)
next
  assume a: "map_find (getCameraId camera) (registeredCameras camerasOf) = Some camera0"
  have c: "map_insert (getCameraId camera, camera) (registeredCameras camerasOf)
      = registeredCameras camerasOf"
    using a map_find_insert_present [of "(getCameraId camera, camera)"] by simp
  show "registerCamera camera camerasOf = camerasOf"
    by (simp add: registerCamera_def c)
  show "map_find (getCameraId camera) (registeredCameras (registerCamera camera camerasOf))
      = Some camera0"
    using a by (simp add: registerCamera_def c)
qed

text \<open>
  The light is registered twice on a manager that holds no model and no camera, the
  model on a manager that holds nothing else, and the camera likewise.
\<close>

theorem register_existing_keeps_prior_witness:
  "map_find (getLightId (sun\<lparr>getLightIntensity := 2\<rparr>))
     (registeredLights (registerLight sun emptyManager)) = Some sun
   \<and> registeredModels (registerLight sun emptyManager) = []
   \<and> registeredCameras (registerLight sun emptyManager) = []
   \<and> registerLight (sun\<lparr>getLightIntensity := 2\<rparr>) (registerLight sun emptyManager)
       = registerLight sun emptyManager
   \<and> map_find (getLightId (sun\<lparr>getLightIntensity := 2\<rparr>))
       (registeredLights (registerLight (sun\<lparr>getLightIntensity := 2\<rparr>)
          (registerLight sun emptyManager))) = Some sun
   \<and> map_find (getModelId (crate\<lparr>getModelName := ''Box''\<rparr>))
       (registeredModels (registerModel crate emptyManager)) = Some crate
   \<and> registerModel (crate\<lparr>getModelName := ''Box''\<rparr>) (registerModel crate emptyManager)
       = registerModel crate emptyManager
   \<and> map_find (getCameraId (eye\<lparr>getViewMatrix := Mat 60\<rparr>))
       (registeredCameras (registerCamera eye emptyManager)) = Some eye
   \<and> registerCamera (eye\<lparr>getViewMatrix := Mat 60\<rparr>) (registerCamera eye emptyManager)
       = registerCamera eye emptyManager"
proof -
  have l: "map_find (getLightId (sun\<lparr>getLightIntensity := 2\<rparr>))
      (registeredLights (registerLight sun emptyManager)) = Some sun"
    by (simp add: registerLight_def emptyManager_def map_insert_def map_find_def)
  have m: "map_find (getModelId (crate\<lparr>getModelName := ''Box''\<rparr>))
      (registeredModels (registerModel crate emptyManager)) = Some crate"
    by (simp add: registerModel_def emptyManager_def map_insert_def map_find_def)
  have c: "map_find (getCameraId (eye\<lparr>getViewMatrix := Mat 60\<rparr>))
      (registeredCameras (registerCamera eye emptyManager)) = Some eye"
    by (simp add: registerCamera_def emptyManager_def map_insert_def map_find_def)
  have e: "registeredModels (registerLight sun emptyManager) = []"
      "registeredCameras (registerLight sun emptyManager) = []"
    by (simp_all add: registerLight_def emptyManager_def)
  note t = register_existing_keeps_prior
    [of "sun\<lparr>getLightIntensity := 2\<rparr>" "registerLight sun emptyManager" sun
        "crate\<lparr>getModelName := ''Box''\<rparr>" "registerModel crate emptyManager" crate
        "eye\<lparr>getViewMatrix := Mat 60\<rparr>" "registerCamera eye emptyManager" eye]
  show ?thesis using t l m c e by blast
qed

text \<open>
  C8. For every registry and every identifier with no entry in it, deregister leaves the
  render manager unchanged, and nothing is reported; deregistering an identifier (or an
  entity) twice is the same as deregistering it once.
\<close>

theorem deregister_absent_is_noop:
  assumes "map_find lightId (registeredLights rm) = None"
    and "map_find modelId (registeredModels rm) = None"
    and "map_find cameraId (registeredCameras rm) = None"
  shows "deregisterLightId lightId rm = rm
    \<and> deregisterModelId modelId rm = rm
    \<and> deregisterCameraId cameraId rm = rm
    \<and> deregisterLightId k (deregisterLightId k rm') = deregisterLightId k rm'
    \<and> deregisterModelId k (deregisterModelId k rm') = deregisterModelId k rm'
    \<and> deregisterCameraId k (deregisterCameraId k rm') = deregisterCameraId k rm'
    \<and> deregisterLight light (deregisterLight light rm') = deregisterLight light rm'
    \<and> deregisterModel model (deregisterModel model rm') = deregisterModel model rm'
    \<and> deregisterCamera camera (deregisterCamera camera rm') = deregisterCamera camera rm'"
  using assms
  by (simp add: deregisterLightId_def deregisterModelId_def deregisterCameraId_def
      deregisterLight_def deregisterModel_def deregisterCamera_def
      map_erase_absent map_erase_idem)

theorem deregister_absent_is_noop_witness:
  "map_find ''ghost'' (registeredLights scene) = None
   \<and> map_find ''ghost'' (registeredModels scene) = None
   \<and> map_find ''ghost'' (registeredCameras scene) = None
   \<and> deregisterLightId ''ghost'' scene = scene
   \<and> deregisterModelId ''ghost'' scene = scene
   \<and> deregisterCameraId ''ghost'' scene = scene
   \<and> deregisterLightId ''sun'' (deregisterLightId ''sun'' scene) = deregisterLightId ''sun'' scene"
proof -
  have l: "map_find ''ghost'' (registeredLights scene) = None"
    by (simp add: scene_lights map_find_def)
  have m: "map_find ''ghost'' (registeredModels scene) = None"
    by (simp add: scene_models map_find_def)
  have c: "map_find ''ghost'' (registeredCameras scene) = None"
    by (simp add: scene_cameras map_find_def)
  show ?thesis
    using deregister_absent_is_noop [OF l m c, of "''sun''" scene] l m c by simp
qed

section \<open>Properties of runs\<close>

lemma andThen_Inl [simp]: "andThen (t, Inl e) f = (t, Inl e)"
  by (simp add: andThen_def)

lemma andThen_Inr [simp]: "andThen (t, Inr a) f = (t @ fst (f a), snd (f a))"
  by (simp add: andThen_def split: prod.splits)

lemma andThen_emit [simp]: "andThen (emit cs) f = (cs @ fst (f ()), snd (f ()))"
  by (simp add: emit_def)

lemma fst_andThen:
  "fst (andThen m f) = fst m @ (case snd m of Inl e \<Rightarrow> [] | Inr a \<Rightarrow> fst (f a))"
  by (cases m; cases "snd m") auto

lemma snd_andThen:
  "snd (andThen m f) = (case snd m of Inl e \<Rightarrow> Inl e | Inr a \<Rightarrow> snd (f a))"
  by (cases m; cases "snd m") auto

lemma forEach_always_ok:
  assumes "\<And>i. snd (body i ()) = Inr ()"
  shows "forEach body xs () = (concat (map (\<lambda>i. fst (body i ())) xs), Inr ())"
proof (induction xs)
  case Nil
  show ?case by simp
next
  case (Cons x xs)
  have "body x () = (fst (body x ()), Inr ())"
    using assms [of x] by (cases "body x ()") simp
  then have "andThen (body x ()) (forEach body xs)
      = (fst (body x ()) @ fst (forEach body xs ()), snd (forEach body xs ()))"
    by (metis andThen_Inr)
  then show ?case by (simp add: Cons.IH)
qed

section \<open>The texture slots of the main pass\<close>

lemma texture_binds_append:
  "texture_binds u (xs @ ys) = texture_binds u xs @ texture_binds (active_unit u xs) ys"
  by (induction u xs rule: texture_binds.induct) auto

lemma texture_binds_concat_map:
  assumes "\<And>u i. texture_binds u (f i) = [g i]"
  shows "texture_binds u (concat (map f xs)) = map g xs"
  using assms by (induction xs arbitrary: u) (auto simp: texture_binds_append)

lemma texture_binds_lightUniforms:
  "texture_binds u (lightUniforms kind p i d @ cs) = texture_binds u cs"
  by (simp add: lightUniforms_def)

lemma texture_binds_simpleLightSlot:
  "texture_binds u (simpleLightSlot p ls i) = [(i + 1, GL_TEXTURE_2D, textureId (ls ! i))]"
  by (simp add: simpleLightSlot_def texture_binds_lightUniforms)

lemma texture_binds_cubeLightSlot:
  "texture_binds u (cubeLightSlot p n ls i) = [(i + 8, GL_TEXTURE_CUBE_MAP, textureId (ls ! i))]"
  by (simp add: cubeLightSlot_def texture_binds_lightUniforms)

lemma forEach_deadSimple:
  "forEach (deadSimpleLightSlot (Some d) p) xs () =
     (concat (map (\<lambda>i. fst (deadSimpleLightSlot (Some d) p i ())) xs), Inr ())"
  by (rule forEach_always_ok) (simp add: deadSimpleLightSlot_def emit_def)

lemma forEach_deadCube:
  "forEach (deadCubeLightSlot (Some d) p n) xs () =
     (concat (map (\<lambda>i. fst (deadCubeLightSlot (Some d) p n i ())) xs), Inr ())"
  by (rule forEach_always_ok) (simp add: deadCubeLightSlot_def emit_def)

lemma texture_binds_deadSimpleLightSlot:
  "texture_binds u (fst (deadSimpleLightSlot (Some d) p i ()))
     = [(i + 1, GL_TEXTURE_2D, getShadowBufferTextureId d)]"
  by (simp add: deadSimpleLightSlot_def emit_def)

lemma texture_binds_deadCubeLightSlot:
  "texture_binds u (fst (deadCubeLightSlot (Some d) p n i ()))
     = [(i + 8, GL_TEXTURE_CUBE_MAP, getShadowBufferTextureId d)]"
  by (simp add: deadCubeLightSlot_def emit_def)

lemma texture_binds_modelUniforms:
  "texture_binds u (modelUniforms cl a tt dt v pr m @ cs)
     = (0, GL_TEXTURE_2D, getTextureId m) # texture_binds 0 cs"
  by (simp add: modelUniforms_def)

lemma texture_binds_drawModel: "texture_binds u (fst (drawModel model ids)) = []"
  by (simp add: drawModel_def VertexAttributeArray_new_def VertexAttributeArray_delete_def
      enableAttribute_def split: option.splits)

lemma texture_binds_useProgram:
  "texture_binds u ((if b then [glUseProgram p] else []) @ cs) = texture_binds u cs"
  by simp

lemma fst_renderModel:
  assumes "deadSimpleLight rm = Some deadSimpleL"
    and "deadCubeLight rm = Some deadCubeL"
  shows "fst (renderModel rm categorizedLights totalTime deltaTime viewMatrix projectionMatrix model
                (shaderId, attributeIds))
       = (if shaderId \<noteq> getShaderId model then [glUseProgram (getShaderId model)] else [])
         @ modelUniforms categorizedLights ambientFactor totalTime deltaTime
             viewMatrix projectionMatrix model
         @ concat (map (simpleLightSlot (getShaderId model) (categorizedLights SIMPLE))
             [0..<length (categorizedLights SIMPLE)])
         @ concat (map (\<lambda>i. fst (deadSimpleLightSlot (Some deadSimpleL) (getShaderId model) i ()))
             [length (categorizedLights SIMPLE)..<7])
         @ concat (map (cubeLightSlot (getShaderId model) (length (categorizedLights SIMPLE))
                         (categorizedLights CUBE))
             [0..<length (categorizedLights CUBE)])
         @ concat (map (\<lambda>i. fst (deadCubeLightSlot (Some deadCubeL) (getShaderId model)
                                    (length (categorizedLights SIMPLE)) i ()))
             [length (categorizedLights CUBE)..<8])
         @ fst (drawModel model attributeIds)"
  unfolding renderModel_def
  by (simp add: assms forEach_deadSimple forEach_deadCube fst_andThen split: sum.splits
      del: upt_Suc)

lemma renderModel_binds:
  assumes "deadSimpleLight rm = Some deadSimpleL"
    and "deadCubeLight rm = Some deadCubeL"
  shows "texture_binds u
           (fst (renderModel rm categorizedLights totalTime deltaTime viewMatrix projectionMatrix
                   model st))
       = (0, GL_TEXTURE_2D, getTextureId model)
         # map (\<lambda>i. (i + 1, GL_TEXTURE_2D, textureId (categorizedLights SIMPLE ! i)))
             [0..<length (categorizedLights SIMPLE)]
         @ map (\<lambda>i. (i + 1, GL_TEXTURE_2D, getShadowBufferTextureId deadSimpleL))
             [length (categorizedLights SIMPLE)..<7]
         @ map (\<lambda>i. (i + 8, GL_TEXTURE_CUBE_MAP, textureId (categorizedLights CUBE ! i)))
             [0..<length (categorizedLights CUBE)]
         @ map (\<lambda>i. (i + 8, GL_TEXTURE_CUBE_MAP, getShadowBufferTextureId deadCubeL))
             [length (categorizedLights CUBE)..<8]"
proof -
  obtain shaderId attributeIds where st: "st = (shaderId, attributeIds)" by (cases st)
  have a: "\<And>u xs. texture_binds u
        (concat (map (simpleLightSlot (getShaderId model) (categorizedLights SIMPLE)) xs))
      = map (\<lambda>i. (i + 1, GL_TEXTURE_2D, textureId (categorizedLights SIMPLE ! i))) xs"
    by (rule texture_binds_concat_map) (rule texture_binds_simpleLightSlot)
  have b: "\<And>u xs. texture_binds u
        (concat (map (\<lambda>i. fst (deadSimpleLightSlot (Some deadSimpleL) (getShaderId model) i ())) xs))
      = map (\<lambda>i. (i + 1, GL_TEXTURE_2D, getShadowBufferTextureId deadSimpleL)) xs"
    by (rule texture_binds_concat_map) (rule texture_binds_deadSimpleLightSlot)
  have c: "\<And>u xs. texture_binds u
        (concat (map (cubeLightSlot (getShaderId model) (length (categorizedLights SIMPLE))
                        (categorizedLights CUBE)) xs))
      = map (\<lambda>i. (i + 8, GL_TEXTURE_CUBE_MAP, textureId (categorizedLights CUBE ! i))) xs"
    by (rule texture_binds_concat_map) (rule texture_binds_cubeLightSlot)
  have d: "\<And>u xs. texture_binds u
        (concat (map (\<lambda>i. fst (deadCubeLightSlot (Some deadCubeL) (getShaderId model)
                                  (length (categorizedLights SIMPLE)) i ())) xs))
      = map (\<lambda>i. (i + 8, GL_TEXTURE_CUBE_MAP, getShadowBufferTextureId deadCubeL)) xs"
    by (rule texture_binds_concat_map) (rule texture_binds_deadCubeLightSlot)
  show ?thesis
    unfolding st fst_renderModel [OF assms]
    by (simp only: texture_binds_useProgram texture_binds_modelUniforms
        texture_binds_append [of _ "concat _"] a b c d texture_binds_drawModel append_Nil2
        append_Cons append_Nil)
qed

lemma map_if_slots:
  assumes "n \<le> k"
  shows "map (\<lambda>i. (f i, t, if i < n then g i else d)) [0..<k]
       = map (\<lambda>i. (f i, t, g i)) [0..<n] @ map (\<lambda>i. (f i, t, d)) [n..<k]"
proof -
  have "[0..<k] = [0..<n] @ [n..<k]"
    using assms by (metis le_add_diff_inverse upt_add_eq_append zero_le)
  then show ?thesis by simp
qed

lemma scene_dead:
  "deadSimpleLight scene = Some deadSimple" "deadCubeLight scene = Some deadCube"
  by (simp_all add: scene_def emptyManager_def registerActiveCamera_def registerCamera_def
      registerModel_def registerLight_def registerDeadCubeLight_def
      registerDeadSimpleLight_def)

lemma sun_fields:
  "getLightId sun = ''sun''" "getViewMatrices sun = [Mat 1]"
  "getProjectionMatrices sun = [Mat 2]"
  "getShadowBufferId sun = 11" "getShadowBufferTextureId sun = 21"
  "getShadowBufferType sun = SIMPLE" "getLightShaderId sun = 5"
  by (simp_all add: sun_def)

lemma lamp_fields:
  "getLightId lamp = ''lamp''"
  "getViewMatrices lamp = [Mat 10, Mat 11, Mat 12, Mat 13, Mat 14, Mat 15]"
  "getProjectionMatrices lamp = [Mat 3, Mat 3, Mat 3, Mat 3, Mat 3, Mat 3]"
  "getShadowBufferId lamp = 12" "getShadowBufferTextureId lamp = 22"
  "getShadowBufferType lamp = CUBE" "getLightShaderId lamp = 6"
  by (simp_all add: lamp_def)

lemma crate_fields:
  "getModelId crate = ''crate''" "getShaderId crate = 7" "getTextureId crate = 31"
  "getVertexBufferId crate = 41" "getUvBufferId crate = 42" "getNormalBufferId crate = 43"
  "getBufferSize crate = 36"
  by (simp_all add: crate_def)

lemma dead_fields:
  "getShadowBufferTextureId deadSimple = 23" "getShadowBufferTextureId deadCube = 24"
  by (simp_all add: deadSimple_def deadCube_def)

lemma crate_binds:
  "texture_binds 0 crateCalls =
     [(0, GL_TEXTURE_2D, 31),
      (1, GL_TEXTURE_2D, 21), (2, GL_TEXTURE_2D, 23), (3, GL_TEXTURE_2D, 23),
      (4, GL_TEXTURE_2D, 23), (5, GL_TEXTURE_2D, 23), (6, GL_TEXTURE_2D, 23),
      (7, GL_TEXTURE_2D, 23),
      (8, GL_TEXTURE_CUBE_MAP, 22), (9, GL_TEXTURE_CUBE_MAP, 24), (10, GL_TEXTURE_CUBE_MAP, 24),
      (11, GL_TEXTURE_CUBE_MAP, 24), (12, GL_TEXTURE_CUBE_MAP, 24), (13, GL_TEXTURE_CUBE_MAP, 24),
      (14, GL_TEXTURE_CUBE_MAP, 24), (15, GL_TEXTURE_CUBE_MAP, 24)]"
  unfolding crateCalls_def renderModel_binds [OF scene_dead]
  by (simp add: crate_fields dead_fields sunDetails_def lampDetails_def upt_rec)

text \<open>
  C3 (as the spec states it, refuted). With one simple and one cube light registered,
  within the configured maxima \<open>MAX_CONE_LIGHTS = 4\<close> and \<open>MAX_POINT_LIGHTS = 6\<close>, the
  draw of a model binds 7 shadow slots of target \<open>GL_TEXTURE_2D\<close> and 8 of target
  \<open>GL_TEXTURE_CUBE_MAP\<close>, not 4 and 6.
\<close>

theorem slots_follow_configured_maxima_counterexample:
  "length (sceneLights SIMPLE) \<le> 4 \<and> length (sceneLights CUBE) \<le> 6
   \<and> MAX_CONE_LIGHTS = 4 \<and> MAX_POINT_LIGHTS = 6
   \<and> length (shadow_slots GL_TEXTURE_2D (texture_binds 0 crateCalls)) = 7
   \<and> length (shadow_slots GL_TEXTURE_CUBE_MAP (texture_binds 0 crateCalls)) = 8"
  by (simp add: crate_binds shadow_slots_def MAX_CONE_LIGHTS_def MAX_POINT_LIGHTS_def)

text \<open>
  C3 (amended). For every model drawn in the main pass, and for every number of simple
  lights from 0 to 7 and of cube lights from 0 to 8, \<open>renderModels\<close> binds the model's
  diffuse texture on unit 0, then exactly 7 slots of target \<open>GL_TEXTURE_2D\<close> on the units
  1 to 7 and exactly 8 slots of target \<open>GL_TEXTURE_CUBE_MAP\<close> on the units 8 to 15: a
  slot below the number of lights of its kind holds that light's shadow texture, every
  other simple slot holds the texture of the dead simple light and every other cube slot
  the texture of the dead cube light. The bounds 7 and 8 are literals of \<open>renderModels\<close>,
  not the constants \<open>MAX_CONE_LIGHTS\<close> and \<open>MAX_POINT_LIGHTS\<close>.
\<close>

theorem renderModel_texture_slots:
  assumes "length (categorizedLights SIMPLE) \<le> 7"
    and "length (categorizedLights CUBE) \<le> 8"
    and "deadSimpleLight rm = Some deadSimpleL"
    and "deadCubeLight rm = Some deadCubeL"
  shows "texture_binds u
           (fst (renderModel rm categorizedLights totalTime deltaTime viewMatrix projectionMatrix
                   model st))
       = (0, GL_TEXTURE_2D, getTextureId model)
         # map (\<lambda>i. (i + 1, GL_TEXTURE_2D,
                     if i < length (categorizedLights SIMPLE)
                     then textureId (categorizedLights SIMPLE ! i)
                     else getShadowBufferTextureId deadSimpleL)) [0..<7]
         @ map (\<lambda>i. (i + 8, GL_TEXTURE_CUBE_MAP,
                     if i < length (categorizedLights CUBE)
                     then textureId (categorizedLights CUBE ! i)
                     else getShadowBufferTextureId deadCubeL)) [0..<8]"
  unfolding map_if_slots [OF assms(1)] map_if_slots [OF assms(2)]
  using renderModel_binds [OF assms(3) assms(4)] by simp

theorem renderModel_texture_slots_witness:
  "length (sceneLights SIMPLE) \<le> 7 \<and> length (sceneLights CUBE) \<le> 8
   \<and> deadSimpleLight scene = Some deadSimple \<and> deadCubeLight scene = Some deadCube
   \<and> texture_binds 0 crateCalls =
     [(0, GL_TEXTURE_2D, 31),
      (1, GL_TEXTURE_2D, 21), (2, GL_TEXTURE_2D, 23), (3, GL_TEXTURE_2D, 23),
      (4, GL_TEXTURE_2D, 23), (5, GL_TEXTURE_2D, 23), (6, GL_TEXTURE_2D, 23),
      (7, GL_TEXTURE_2D, 23),
      (8, GL_TEXTURE_CUBE_MAP, 22), (9, GL_TEXTURE_CUBE_MAP, 24), (10, GL_TEXTURE_CUBE_MAP, 24),
      (11, GL_TEXTURE_CUBE_MAP, 24), (12, GL_TEXTURE_CUBE_MAP, 24), (13, GL_TEXTURE_CUBE_MAP, 24),
      (14, GL_TEXTURE_CUBE_MAP, 24), (15, GL_TEXTURE_CUBE_MAP, 24)]"
proof -
  have s: "length (sceneLights SIMPLE) \<le> 7" and c: "length (sceneLights CUBE) \<le> 8"
    by simp_all
  show ?thesis
    using renderModel_texture_slots [OF s c scene_dead, of 0 1 1 "Mat 50" "Mat 51" crate "(- 1, {})"]
    by (simp add: crateCalls_def scene_dead crate_fields dead_fields sunDetails_def
        lampDetails_def upt_rec)
qed

section \<open>The order of the two passes\<close>

lemma list_all_andThen:
  assumes "list_all P (fst m)" and "\<And>a. list_all P (fst (f a))"
  shows "list_all P (fst (andThen m f))"
  using assms by (simp add: fst_andThen split: sum.splits)

lemma list_all_forEach:
  assumes "\<And>x s. list_all P (fst (body x s))"
  shows "list_all P (fst (forEach body xs s))"
  by (induction xs arbitrary: s) (simp_all add: list_all_andThen assms)

lemma filter_forEach:
  assumes "snd (forEach body xs s) = Inr s'"
    and "\<And>x s s''. snd (body x s) = Inr s'' \<Longrightarrow> filter P (fst (body x s)) = g x"
  shows "filter P (fst (forEach body xs s)) = concat (map g xs)"
  using assms(1)
proof (induction xs arbitrary: s)
  case Nil
  then show ?case by simp
next
  case (Cons x xs)
  from Cons.prems obtain s1 where s1: "snd (body x s) = Inr s1"
    and rest: "snd (forEach body xs s1) = Inr s'"
    by (auto simp: snd_andThen split: sum.splits)
  show ?case
    using s1 Cons.IH [OF rest] assms(2) [OF s1] by (simp add: fst_andThen)
qed

text \<open>No call of the shadow pass binds a texture.\<close>

lemma calls_VertexAttributeArray_new: "fst (VertexAttributeArray_new n b e ids) = []"
  by (simp add: VertexAttributeArray_new_def split: option.splits)

lemma no_texture_renderLightModel:
  "list_all (\<lambda>c. \<not> binds_texture c) (fst (renderLightModel light d model ids))"
  unfolding renderLightModel_def
  by (intro list_all_andThen list_all_forEach)
    (auto simp: emit_def shadowUniforms_def uploadVpMatrix_def calls_VertexAttributeArray_new
      enableAttribute_def VertexAttributeArray_delete_def)

lemma no_texture_renderLight:
  "list_all (\<lambda>c. \<not> binds_texture c) (fst (renderLight ms light st))"
  unfolding renderLight_def
  by (cases st; cases "lightDetailsOf light")
    (auto intro!: list_all_andThen list_all_forEach no_texture_renderLightModel simp: emit_def)

lemma no_texture_renderLights:
  "list_all (\<lambda>c. \<not> binds_texture c) (fst (renderLights rm ids))"
  unfolding renderLights_def
  by (intro list_all_andThen list_all_forEach no_texture_renderLight)
    (auto simp: emit_def)


text \<open>No call of the main pass binds a framebuffer.\<close>

lemma list_all_concat_map:
  assumes "\<And>x. list_all P (f x)"
  shows "list_all P (concat (map f xs))"
  by (induction xs) (simp_all add: assms)

lemma no_framebuffer_drawModel:
  "list_all (\<lambda>c. \<not> binds_framebuffer c) (fst (drawModel model ids))"
  by (simp add: drawModel_def VertexAttributeArray_new_def VertexAttributeArray_delete_def
      enableAttribute_def split: option.splits)

lemma no_framebuffer_slots:
  "list_all (\<lambda>c. \<not> binds_framebuffer c) (simpleLightSlot p ls i)"
  "list_all (\<lambda>c. \<not> binds_framebuffer c) (cubeLightSlot p n ls i)"
  "list_all (\<lambda>c. \<not> binds_framebuffer c) (fst (deadSimpleLightSlot dead p i u))"
  "list_all (\<lambda>c. \<not> binds_framebuffer c) (fst (deadCubeLightSlot dead p n i u))"
  "list_all (\<lambda>c. \<not> binds_framebuffer c) (modelUniforms cl a tt dt v pr m)"
  by (simp_all add: simpleLightSlot_def cubeLightSlot_def deadSimpleLightSlot_def
      deadCubeLightSlot_def modelUniforms_def lightUniforms_def emit_def split: option.splits)

lemma no_framebuffer_renderModel:
  "list_all (\<lambda>c. \<not> binds_framebuffer c)
     (fst (renderModel rm cl totalTime deltaTime viewMatrix projectionMatrix model st))"
  by (cases st)
    (simp add: renderModel_def fst_andThen list_all_forEach list_all_concat_map
      no_framebuffer_slots no_framebuffer_drawModel split: sum.splits del: upt_Suc)

lemma no_framebuffer_renderModels:
  "list_all (\<lambda>c. \<not> binds_framebuffer c) (fst (renderModels currentTime cl rm ids))"
  unfolding renderModels_def
  by (cases "map_find (activeCameraId rm) (registeredCameras rm)")
    (auto intro!: list_all_forEach no_framebuffer_renderModel simp: fst_andThen split: sum.splits)

lemma no_framebuffer_mainPass:
  "list_all (\<lambda>c. \<not> binds_framebuffer c) (mainPass currentTime rm ids)"
  by (simp add: mainPass_def no_framebuffer_renderModels split: sum.splits prod.splits)

lemma fst_render: "fst (render currentTime rm ids) = fst (renderLights rm ids) @ mainPass currentTime rm ids"
  by (simp add: render_def mainPass_def fst_andThen split: sum.splits prod.splits)


text \<open>
  When the shadow pass returns, it has bound and released the framebuffer of each light
  and drawn each model once for each light.
\<close>

lemma filter_Nil_list_all: "list_all (\<lambda>c. \<not> P c) xs \<Longrightarrow> filter P xs = []"
  by (simp add: filter_empty_conv list_all_iff)

lemma uploadVpMatrix_only_matrices:
  assumes "\<And>l m. \<not> P (glUniformMatrix4fv l m)"
  shows "list_all (\<lambda>c. \<not> P c) (fst (forEach (uploadVpMatrix p pm vm) xs u))"
  by (rule list_all_forEach) (simp add: uploadVpMatrix_def emit_def assms)

lemma no_framebuffer_renderLightModel:
  "list_all (\<lambda>c. \<not> binds_framebuffer c) (fst (renderLightModel light d model ids))"
  by (simp add: renderLightModel_def fst_andThen uploadVpMatrix_only_matrices shadowUniforms_def
      VertexAttributeArray_new_def VertexAttributeArray_delete_def enableAttribute_def emit_def
      split: sum.splits option.splits del: upt_Suc)

lemma draws_renderLightModel:
  assumes "snd (renderLightModel light d model ids) = Inr ids'"
  shows "filter draws (fst (renderLightModel light d model ids)) = [glDrawArrays (getBufferSize model)]"
proof -
  have v: "filter draws (fst (forEach (uploadVpMatrix (getLightShaderId light)
      (getProjectionMatrices light) (getViewMatrices light)) [0..<length (getViewMatrices light)] ())) = []"
    by (rule filter_Nil_list_all) (simp add: uploadVpMatrix_only_matrices)
  show ?thesis
    using assms
    by (simp add: renderLightModel_def fst_andThen snd_andThen v shadowUniforms_def
      VertexAttributeArray_new_def VertexAttributeArray_delete_def enableAttribute_def emit_def
      split: sum.splits option.splits del: upt_Suc)
qed

lemma renderLight_passes:
  assumes "snd (renderLight ms light st) = Inr st'"
  shows "filter binds_framebuffer (fst (renderLight ms light st))
       = [glBindFramebuffer (getShadowBufferId light), glBindFramebuffer 0]"
    and "filter draws (fst (renderLight ms light st))
       = map (\<lambda>model. glDrawArrays (getBufferSize model)) ms"
proof -
  obtain shaderId cl ids where st: "st = (shaderId, cl, ids)" by (cases st)
  from assms obtain d where d: "lightDetailsOf light = Inr d"
    by (cases "lightDetailsOf light") (simp_all add: renderLight_def st)
  from assms obtain ids1 where inner:
    "snd (forEach (renderLightModel light d) ms ids) = Inr ids1"
    by (auto simp: renderLight_def st d snd_andThen emit_def split: sum.splits)
  have fb: "filter binds_framebuffer (fst (forEach (renderLightModel light d) ms ids)) = []"
    by (rule filter_Nil_list_all) (simp add: list_all_forEach no_framebuffer_renderLightModel)
  have dr: "filter draws (fst (forEach (renderLightModel light d) ms ids))
      = concat (map (\<lambda>model. [glDrawArrays (getBufferSize model)]) ms)"
    using inner by (rule filter_forEach) (rule draws_renderLightModel)
  have c: "concat (map (\<lambda>model. [glDrawArrays (getBufferSize model)]) ms)
      = map (\<lambda>model. glDrawArrays (getBufferSize model)) ms"
    by (induction ms) simp_all
  show "filter binds_framebuffer (fst (renderLight ms light st))
       = [glBindFramebuffer (getShadowBufferId light), glBindFramebuffer 0]"
    by (simp add: renderLight_def st d fst_andThen inner fb)
  show "filter draws (fst (renderLight ms light st))
       = map (\<lambda>model. glDrawArrays (getBufferSize model)) ms"
    by (simp add: renderLight_def st d fst_andThen inner dr c)
qed

lemma renderLights_passes:
  assumes "snd (renderLights rm ids) = Inr r"
  shows "filter binds_framebuffer (fst (renderLights rm ids))
       = concat (map (\<lambda>light. [glBindFramebuffer (getShadowBufferId light), glBindFramebuffer 0])
           (map snd (registeredLights rm)))"
    and "filter draws (fst (renderLights rm ids))
       = concat (map (\<lambda>light. map (\<lambda>model. glDrawArrays (getBufferSize model))
                                (map snd (registeredModels rm)))
           (map snd (registeredLights rm)))"
proof -
  from assms obtain st' where loop:
    "snd (forEach (renderLight (map snd (registeredModels rm))) (map snd (registeredLights rm))
            (- 1, (\<lambda>t. []), ids)) = Inr st'"
    by (auto simp: renderLights_def snd_andThen split: sum.splits)
  show "filter binds_framebuffer (fst (renderLights rm ids))
       = concat (map (\<lambda>light. [glBindFramebuffer (getShadowBufferId light), glBindFramebuffer 0])
           (map snd (registeredLights rm)))"
    using filter_forEach [OF loop, of binds_framebuffer
        "\<lambda>light. [glBindFramebuffer (getShadowBufferId light), glBindFramebuffer 0]"]
    by (simp add: renderLights_def fst_andThen loop renderLight_passes(1) split: prod.splits)
  show "filter draws (fst (renderLights rm ids))
       = concat (map (\<lambda>light. map (\<lambda>model. glDrawArrays (getBufferSize model))
                                (map snd (registeredModels rm)))
           (map snd (registeredLights rm)))"
    using filter_forEach [OF loop, of draws
        "\<lambda>light. map (\<lambda>model. glDrawArrays (getBufferSize model)) (map snd (registeredModels rm))"]
    by (simp add: renderLights_def fst_andThen loop renderLight_passes(2) split: prod.splits)
qed

lemma mainPass_started:
  assumes "mainPass currentTime rm ids \<noteq> []"
  shows "\<exists>r. snd (renderLights rm ids) = Inr r"
  using assms by (cases "snd (renderLights rm ids)") (simp_all add: mainPass_def)

text \<open>
  C5. In every call to \<open>render\<close> the calls of the shadow pass come first and those of
  the main pass after them: no call of the shadow pass binds a texture, no call of the
  main pass binds a framebuffer, and every call that binds a framebuffer precedes every
  call that binds a texture. When the main pass issues any call, \<open>renderLights\<close> has
  returned, having bound and released the shadow framebuffer of every registered light, in
  the order of the registry, and drawn every registered model once for each light.
\<close>

theorem shadow_pass_precedes_main_pass:
  "fst (render currentTime rm attributeIds)
     = fst (renderLights rm attributeIds) @ mainPass currentTime rm attributeIds
   \<and> (\<forall>c \<in> set (fst (renderLights rm attributeIds)). \<not> binds_texture c)
   \<and> (\<forall>c \<in> set (mainPass currentTime rm attributeIds). \<not> binds_framebuffer c)
   \<and> (mainPass currentTime rm attributeIds \<noteq> [] \<longrightarrow>
        filter binds_framebuffer (fst (renderLights rm attributeIds))
          = concat (map (\<lambda>light. [glBindFramebuffer (getShadowBufferId light), glBindFramebuffer 0])
              (map snd (registeredLights rm)))
        \<and> filter draws (fst (renderLights rm attributeIds))
          = concat (map (\<lambda>light. map (\<lambda>model. glDrawArrays (getBufferSize model))
                                   (map snd (registeredModels rm)))
              (map snd (registeredLights rm))))
   \<and> (\<forall>i j. i < length (fst (render currentTime rm attributeIds))
          \<and> j < length (fst (render currentTime rm attributeIds))
          \<and> binds_framebuffer (fst (render currentTime rm attributeIds) ! i)
          \<and> binds_texture (fst (render currentTime rm attributeIds) ! j)
        \<longrightarrow> i < j)"
proof -
  let ?shadow = "fst (renderLights rm attributeIds)"
  let ?main = "mainPass currentTime rm attributeIds"
  have split: "fst (render currentTime rm attributeIds) = ?shadow @ ?main"
    by (rule fst_render)
  have nt: "\<forall>c \<in> set ?shadow. \<not> binds_texture c"
    using no_texture_renderLights [of rm attributeIds] by (simp add: list_all_iff)
  have nf: "\<forall>c \<in> set ?main. \<not> binds_framebuffer c"
    using no_framebuffer_mainPass [of currentTime rm attributeIds] by (simp add: list_all_iff)
  have complete: "?main \<noteq> [] \<longrightarrow>
        filter binds_framebuffer ?shadow
          = concat (map (\<lambda>light. [glBindFramebuffer (getShadowBufferId light), glBindFramebuffer 0])
              (map snd (registeredLights rm)))
        \<and> filter draws ?shadow
          = concat (map (\<lambda>light. map (\<lambda>model. glDrawArrays (getBufferSize model))
                                   (map snd (registeredModels rm)))
              (map snd (registeredLights rm)))"
    using mainPass_started renderLights_passes by blast
  have order: "i < j"
    if "i < length (?shadow @ ?main)" "j < length (?shadow @ ?main)"
      "binds_framebuffer ((?shadow @ ?main) ! i)" "binds_texture ((?shadow @ ?main) ! j)" for i j
  proof -
    have i: "i < length ?shadow"
    proof (rule ccontr)
      assume "\<not> i < length ?shadow"
      then have "(?shadow @ ?main) ! i \<in> set ?main"
        using that(1) by (simp add: nth_append)
      then show False using nf that(3) by blast
    qed
    have j: "\<not> j < length ?shadow"
    proof
      assume "j < length ?shadow"
      then have "(?shadow @ ?main) ! j \<in> set ?shadow"
        by (simp add: nth_append)
      then show False using nt that(4) by blast
    qed
    show ?thesis using i j by simp
  qed
  show ?thesis
    unfolding split using nt nf complete order by blast
qed


lemma createAttributeId_small:
  "createAttributeId {} = Some 0" "createAttributeId {0} = Some 1"
  "createAttributeId {0, 1} = Some 2"
  by (simp_all add: createAttributeId_def createAttributeId_from.simps)

lemma lightDetailsOf_sun: "lightDetailsOf sun = Inr sunDetails"
  by (simp add: lightDetailsOf_def sun_def sunDetails_def FRAMEBUFFER_WIDTH_def
      VIEWPORT_WIDTH_def WINDOW_WIDTH_def)

lemma lightDetailsOf_lamp: "lightDetailsOf lamp = Inr lampDetails"
  by (simp add: lightDetailsOf_def lamp_def lampDetails_def FRAMEBUFFER_WIDTH_def
      VIEWPORT_WIDTH_def WINDOW_WIDTH_def)

lemma sceneLights_eq: "(\<lambda>t. [])(CUBE := [lampDetails], SIMPLE := [sunDetails]) = sceneLights"
proof
  fix t show "((\<lambda>t. [])(CUBE := [lampDetails], SIMPLE := [sunDetails])) t = sceneLights t"
    by (cases t) simp_all
qed

lemma renderLights_scene: "snd (renderLights scene {}) = Inr (sceneLights, {})"
  unfolding renderLights_def scene_lights scene_models
  by (simp add: renderLight_def lightDetailsOf_sun lightDetailsOf_lamp renderLightModel_def
       VertexAttributeArray_new_def VertexAttributeArray_delete_def createAttributeId_small
       uploadVpMatrix_def sun_fields lamp_fields crate_fields upt_rec sceneLights_eq)

lemma renderLights_scene_start:
  "2 < length (fst (renderLights scene {}))"
  "fst (renderLights scene {}) ! 2 = glBindFramebuffer 12"
  unfolding renderLights_def scene_lights scene_models
  by (simp_all add: renderLight_def lightDetailsOf_sun lightDetailsOf_lamp lamp_fields
      fst_andThen)

lemma scene_camera: "map_find (activeCameraId scene) (registeredCameras scene) = Some eye"
  by (simp add: scene_cameras map_find_def)
    (simp add: scene_def registerActiveCamera_def eye_def)

lemma mainPass_scene_start:
  "14 < length (mainPass 1 scene {})"
  "mainPass 1 scene {} ! 14 = glBindTexture GL_TEXTURE_2D 31"
  unfolding mainPass_def renderLights_scene renderModels_def scene_camera scene_models
  by (simp_all add: renderModel_def modelUniforms_def crate_fields fst_andThen)

theorem shadow_pass_precedes_main_pass_witness:
  "glBindFramebuffer 12 \<in> set (fst (renderLights scene {}))
   \<and> glBindTexture GL_TEXTURE_2D 31 \<in> set (mainPass 1 scene {})
   \<and> mainPass 1 scene {} \<noteq> []
   \<and> filter binds_framebuffer (fst (renderLights scene {}))
       = [glBindFramebuffer 12, glBindFramebuffer 0, glBindFramebuffer 11, glBindFramebuffer 0]
   \<and> filter draws (fst (renderLights scene {})) = [glDrawArrays 36, glDrawArrays 36]
   \<and> binds_framebuffer (fst (render 1 scene {}) ! 2)
   \<and> binds_texture (fst (render 1 scene {}) ! (length (fst (renderLights scene {})) + 14))
   \<and> 2 < length (fst (renderLights scene {})) + 14"
proof -
  note t = shadow_pass_precedes_main_pass [of 1 scene "{}"]
  have a: "glBindFramebuffer 12 \<in> set (fst (renderLights scene {}))"
    using renderLights_scene_start nth_mem by metis
  have b: "glBindTexture GL_TEXTURE_2D 31 \<in> set (mainPass 1 scene {})"
    using mainPass_scene_start nth_mem by metis
  have c: "mainPass 1 scene {} \<noteq> []"
    using mainPass_scene_start(1) by auto
  have r: "fst (render 1 scene {}) = fst (renderLights scene {}) @ mainPass 1 scene {}"
    using t by blast
  have i: "binds_framebuffer (fst (render 1 scene {}) ! 2)"
    by (simp add: r nth_append renderLights_scene_start)
  have j: "binds_texture (fst (render 1 scene {}) ! (length (fst (renderLights scene {})) + 14))"
    by (simp add: r mainPass_scene_start)
  have li: "2 < length (fst (render 1 scene {}))"
    using renderLights_scene_start(1) by (simp add: r)
  have lj: "length (fst (renderLights scene {})) + 14 < length (fst (render 1 scene {}))"
    using mainPass_scene_start(1) by (simp add: r)
  have o: "2 < length (fst (renderLights scene {})) + 14"
    using t i j li lj by blast
  have f: "filter binds_framebuffer (fst (renderLights scene {}))
       = [glBindFramebuffer 12, glBindFramebuffer 0, glBindFramebuffer 11, glBindFramebuffer 0]"
    using t c by (simp add: scene_lights lamp_fields sun_fields)
  have d: "filter draws (fst (renderLights scene {})) = [glDrawArrays 36, glDrawArrays 36]"
    using t c by (simp add: scene_lights scene_models crate_fields)
  show ?thesis using a b c f d i j o by blast
qed

section \<open>What the shadow pass records and what the main pass uploads\<close>

text \<open>
  C4 (the code departs from the claim). The record that \<open>renderLights\<close> collects for the
  simple light of the scene has \<open>mapWidth\<close> and \<open>mapHeight\<close> both equal to
  \<open>FRAMEBUFFER_WIDTH\<close>, 1600, although the framebuffer is 1600 wide and 1200 high: the
  initialiser passes \<open>FRAMEBUFFER_WIDTH\<close> twice. The matrix recorded is
  \<open>projection[0] * view[0] * glm::mat4()\<close>.
\<close>

theorem mapHeight_is_framebuffer_width:
  "snd (renderLights scene {}) = Inr (sceneLights, {})
   \<and> map mapWidth (sceneLights SIMPLE) = [FRAMEBUFFER_WIDTH]
   \<and> map mapHeight (sceneLights SIMPLE) = [FRAMEBUFFER_WIDTH]
   \<and> map lightVpMatrix (sceneLights SIMPLE) = [Times (Times (Mat 2) (Mat 1)) Mat4Default]
   \<and> FRAMEBUFFER_WIDTH = 1600 \<and> FRAMEBUFFER_HEIGHT = 1200"
  by (simp add: renderLights_scene sunDetails_def FRAMEBUFFER_WIDTH_def FRAMEBUFFER_HEIGHT_def
      VIEWPORT_WIDTH_def VIEWPORT_HEIGHT_def WINDOW_WIDTH_def WINDOW_HEIGHT_def)

lemma uploads1i_append: "uploads1i name (xs @ ys) = uploads1i name xs @ uploads1i name ys"
  by (induction name xs rule: uploads1i.induct) auto

lemma crate_samplers:
  "uploads1i ''cubeLightTextures[0]'' crateCalls = [9]"
  "uploads1i ''cubeLightTextures[7]'' crateCalls = [16]"
  "uploads1i ''simpleLightTextures[0]'' crateCalls = [1]"
  unfolding crateCalls_def fst_renderModel [OF scene_dead]
  by (simp_all add: uploads1i_append crate_fields dead_fields modelUniforms_def
      simpleLightSlot_def cubeLightSlot_def deadSimpleLightSlot_def deadCubeLightSlot_def
      lightUniforms_def glGetUniformLocation_def emit_def drawModel_def
      VertexAttributeArray_new_def VertexAttributeArray_delete_def enableAttribute_def
      fst_andThen upt_rec to_string.simps split: option.splits)

text \<open>
  C10 (the code departs from the claim). With one simple and one cube light, the draw of
  the model binds the cube map of cube slot 0 on unit 8 and the placeholder of cube slot
  7 on unit 15, but uploads 9 to \<open>cubeLightTextures[0]\<close> and 16 to
  \<open>cubeLightTextures[7]\<close>: the number of simple lights is added to the sampler value and
  not to the unit. The simple slot 0 is bound on unit 1 and its sampler is 1.
\<close>

theorem cube_sampler_misses_bound_unit:
  "length (sceneLights SIMPLE) = 1
   \<and> shadow_slots GL_TEXTURE_CUBE_MAP (texture_binds 0 crateCalls) ! 0 = (8, 22)
   \<and> uploads1i ''cubeLightTextures[0]'' crateCalls = [9]
   \<and> shadow_slots GL_TEXTURE_CUBE_MAP (texture_binds 0 crateCalls) ! 7 = (15, 24)
   \<and> uploads1i ''cubeLightTextures[7]'' crateCalls = [16]
   \<and> shadow_slots GL_TEXTURE_2D (texture_binds 0 crateCalls) ! 0 = (1, 21)
   \<and> uploads1i ''simpleLightTextures[0]'' crateCalls = [1]"
  by (simp add: crate_binds shadow_slots_def crate_samplers)

section \<open>The update of a shot\<close>

text \<open>The shot has a light after \<open>createShotLight\<close>: the light moved next is not null.\<close>

lemma createShotLight_has_light:
  "shotLight (shotHeap (createShotLight env this w) this) \<noteq> None"
  by (simp add: createShotLight_def destroyShotLight_def moveShotLight_def
      lightManager_registerLight_def lightManager_deregisterLight_def Let_def
      split: option.splits)

text \<open>What the parts of \<open>update\<close> leave as it was.\<close>

lemma updateShotLight_frame:
  "modelManager (updateShotLight env this w) = modelManager w"
  "modelHeap (updateShotLight env this w) = modelHeap w"
  "lastShotLightChange (updateShotLight env this w) = lastShotLightChange w"
  "isShotLightPresent (updateShotLight env this w) = isShotLightPresent w"
  "lastTime (shotHeap (updateShotLight env this w) a) = lastTime (shotHeap w a)"
  by (simp_all add: updateShotLight_def createShotLight_def destroyShotLight_def
      moveShotLight_def lightManager_registerLight_def lightManager_deregisterLight_def Let_def
      split: option.splits)

lemma advance_frame:
  "modelManager (advance env currentTime keyH this w) = modelManager w"
  "modelHeap (advance env currentTime keyH this w) =
     (modelHeap w)(this := (modelHeap w this)\<lparr>getModelPosition :=
        vec3_minus (getModelPosition (modelHeap w this))
          (Vec3 0.0 0.0 (100.0 * (currentTime - lastTime (shotHeap w this))))\<rparr>)"
  "isShotLightPresent (advance env currentTime keyH this w) =
     (if keyH \<and> currentTime - lastShotLightChange w > 0.5
      then \<not> isShotLightPresent w else isShotLightPresent w)"
  "lastShotLightChange (advance env currentTime keyH this w) =
     (if keyH \<and> currentTime - lastShotLightChange w > 0.5
      then currentTime else lastShotLightChange w)"
  by (simp_all add: advance_def Let_def updateShotLight_frame setModelPosition_def)

lemma collisionLoop_find:
  "collisionLoop env this ms w =
     (case find (\<lambda>model. getModelName (modelHeap w model) = ''Enemy''
                  \<and> haveShapesCollided env (modelHeap w this) (modelHeap w model)) ms of
        None \<Rightarrow> w
      | Some e \<Rightarrow> modelManager_deregisterModelId (getModelId (modelHeap w this))
                   (modelManager_deregisterModel e w))"
  by (induction ms) auto

lemma collisionLoop_frame:
  "modelHeap (collisionLoop env this ms w) = modelHeap w"
  "isShotLightPresent (collisionLoop env this ms w) = isShotLightPresent w"
  "lastShotLightChange (collisionLoop env this ms w) = lastShotLightChange w"
  "lightManager (collisionLoop env this ms w) = lightManager w"
  "lightHeap (collisionLoop env this ms w) = lightHeap w"
  "shotHeap (collisionLoop env this ms w) = shotHeap w"
  "freeLight (collisionLoop env this ms w) = freeLight w"
  by (simp_all add: collisionLoop_find modelManager_deregisterModelId_def
      modelManager_deregisterModel_def split: option.splits)

lemma update_flags:
  "isShotLightPresent (update env currentTime keyH this w) =
     (if \<not> vec_z (getModelPosition (modelHeap w this)) < - 50.0
         \<and> keyH \<and> currentTime - lastShotLightChange w > 0.5
      then \<not> isShotLightPresent w else isShotLightPresent w)"
  "lastShotLightChange (update env currentTime keyH this w) =
     (if \<not> vec_z (getModelPosition (modelHeap w this)) < - 50.0
         \<and> keyH \<and> currentTime - lastShotLightChange w > 0.5
      then currentTime else lastShotLightChange w)"
  by (simp_all add: update_def Let_def collisionLoop_frame advance_frame
      modelManager_deregisterModelId_def)

lemma getModelId_advance:
  "getModelId (modelHeap (advance env currentTime keyH this w) a) = getModelId (modelHeap w a)"
  "getModelName (modelHeap (advance env currentTime keyH this w) a) = getModelName (modelHeap w a)"
  by (simp_all add: advance_frame)

lemma getAllModels_advance:
  "getAllModels (advance env currentTime keyH this w) = getAllModels w"
  by (simp add: getAllModels_def advance_frame)

lemma modelManager_update:
  assumes "\<not> vec_z (getModelPosition (modelHeap w this)) < - 50.0"
  shows "modelManager (update env currentTime keyH this w) =
     (case firstCollision env this (advance env currentTime keyH this w) of
        None \<Rightarrow> modelManager w
      | Some enemy \<Rightarrow> map_erase (getModelId (modelHeap w this))
                        (map_erase (getModelId (modelHeap w enemy)) (modelManager w)))"
  using assms
  by (simp add: update_def Let_def collisionLoop_find firstCollision_def
      modelManager_deregisterModelId_def modelManager_deregisterModel_def advance_frame(1)
      getModelId_advance split: option.splits)

lemma modelHeap_update:
  assumes "\<not> vec_z (getModelPosition (modelHeap w this)) < - 50.0"
  shows "modelHeap (update env currentTime keyH this w) = modelHeap (advance env currentTime keyH this w)"
  using assms by (simp add: update_def Let_def collisionLoop_frame)

lemma update_expired:
  assumes "vec_z (getModelPosition (modelHeap w this)) < - 50.0"
  shows "update env currentTime keyH this w
       = w\<lparr>modelManager := map_erase (getModelId (modelHeap w this)) (modelManager w)\<rparr>"
  using assms by (simp add: update_def modelManager_deregisterModelId_def)

lemma battlefieldModels_at:
  "battlefieldModels 1 = enemyA" "battlefieldModels 2 = enemyB" "battlefieldModels 3 = enemyC"
  by (simp_all add: numeral_2_eq_2 numeral_3_eq_3)

lemma battlefield_fields:
  "modelHeap battlefield = battlefieldModels"
  "modelManager battlefield = [(''enemyA'', 1), (''enemyB'', 2), (''enemyC'', 3), (''shot1'', 0)]"
  "lastTime (shotHeap battlefield a) = 0"
  "isShotLightPresent battlefield = True"
  "lastShotLightChange battlefield = - 1"
  by (simp_all add: battlefield_def)

lemma model_fields:
  "getModelId bullet = ''shot1''" "getModelName bullet = ''Shot''"
  "getModelPosition bullet = Vec3 0 0 (- 10)"
  "getModelId enemyA = ''enemyA''" "getModelName enemyA = ''Enemy''"
  "getModelPosition enemyA = Vec3 0 0 (- 10.5)"
  "getModelId enemyB = ''enemyB''" "getModelName enemyB = ''Enemy''"
  "getModelPosition enemyB = Vec3 0 0 (- 11)"
  "getModelId enemyC = ''enemyC''" "getModelName enemyC = ''Enemy''"
  "getModelPosition enemyC = Vec3 30 0 (- 10)"
  by (simp_all add: bullet_def enemyA_def enemyB_def enemyC_def)

lemma battlefield_in_range: "\<not> vec_z (getModelPosition (modelHeap battlefield 0)) < - 50.0"
  by (simp add: battlefield_fields model_fields)

lemma battlefield_firstCollision:
  "firstCollision collaborators 0 (advance collaborators 0.001 False 0 battlefield) = Some 1"
  by (simp add: firstCollision_def getAllModels_advance getAllModels_def advance_frame
      battlefield_fields battlefieldModels_at model_fields collaborators_def spheresTouch_def
      vec3_minus_def power2_eq_square)

lemma battlefield_second_hit:
  "haveShapesCollided collaborators
     (modelHeap (advance collaborators 0.001 False 0 battlefield) 0)
     (modelHeap (advance collaborators 0.001 False 0 battlefield) 2)"
  by (simp add: advance_frame
      battlefield_fields battlefieldModels_at model_fields collaborators_def spheresTouch_def
      vec3_minus_def power2_eq_square)

lemma nearBoundary_fields:
  "modelHeap nearBoundary = battlefieldModels(0 := bullet\<lparr>getModelPosition := Vec3 0 0 (- 49.9)\<rparr>)"
  "modelManager nearBoundary = [(''enemyA'', 1), (''enemyB'', 2), (''enemyC'', 3), (''shot1'', 0)]"
  "lastTime (shotHeap nearBoundary a) = 0"
  "isShotLightPresent nearBoundary = True"
  "lastShotLightChange nearBoundary = - 1"
  by (simp_all add: nearBoundary_def setModelPosition_def battlefield_def)

lemma nearBoundary_start:
  "vec_z (getModelPosition (modelHeap nearBoundary 0)) = - 49.9"
  "0.002 - lastTime (shotHeap nearBoundary 0) = 0.002"
  by (simp_all add: nearBoundary_fields)

lemma nearBoundary_in_range: "\<not> vec_z (getModelPosition (modelHeap nearBoundary 0)) < - 50.0"
  by (simp add: nearBoundary_fields)

lemma nearBoundary_no_collision:
  "firstCollision collaborators 0 (advance collaborators 0.002 False 0 nearBoundary) = None"
  by (simp add: firstCollision_def getAllModels_advance getAllModels_def advance_frame
      nearBoundary_fields battlefieldModels_at model_fields collaborators_def spheresTouch_def
      vec3_minus_def power2_eq_square)

lemma nearBoundary_stays_registered:
  "modelManager (update collaborators 0.002 False 0 nearBoundary) = modelManager nearBoundary"
  using modelManager_update [OF nearBoundary_in_range, of collaborators "0.002" False,
      unfolded nearBoundary_no_collision option.case] .

lemma nearBoundary_moved:
  "vec_z (getModelPosition (modelHeap (update collaborators 0.002 False 0 nearBoundary) 0)) = - 50.1"
  by (simp add: modelHeap_update [OF nearBoundary_in_range] advance_frame nearBoundary_fields
      model_fields vec3_minus_def)

lemma beyondBoundary_fields:
  "modelHeap beyondBoundary = battlefieldModels(0 := bullet\<lparr>getModelPosition := Vec3 0 0 (- 50.5)\<rparr>)"
  "modelManager beyondBoundary = [(''enemyA'', 1), (''enemyB'', 2), (''enemyC'', 3), (''shot1'', 0)]"
  by (simp_all add: beyondBoundary_def setModelPosition_def battlefield_def)

lemma beyondBoundary_expired: "vec_z (getModelPosition (modelHeap beyondBoundary 0)) < - 50.0"
  by (simp add: beyondBoundary_fields)

text \<open>
  C9. A shot whose position is beyond the boundary (\<open>z < -50.0\<close>) when \<open>update\<close> starts
  is deregistered from the model registry and the call does nothing else: the world
  after the call is the world before it with the entry of the shot erased. So the
  position is not advanced, no light is created, moved or destroyed, the toggle and its
  timestamp are left alone, and every other model stays registered.
\<close>

theorem expired_shot_only_deregistered:
  assumes "vec_z (getModelPosition (modelHeap w this)) < - 50.0"
  shows "update env currentTime keyH this w
       = w\<lparr>modelManager := map_erase (getModelId (modelHeap w this)) (modelManager w)\<rparr>
    \<and> map_find (getModelId (modelHeap w this)) (modelManager (update env currentTime keyH this w))
       = None
    \<and> (\<forall>k. k \<noteq> getModelId (modelHeap w this)
          \<longrightarrow> map_find k (modelManager (update env currentTime keyH this w))
              = map_find k (modelManager w))
    \<and> modelHeap (update env currentTime keyH this w) = modelHeap w
    \<and> shotHeap (update env currentTime keyH this w) = shotHeap w
    \<and> lightHeap (update env currentTime keyH this w) = lightHeap w
    \<and> freeLight (update env currentTime keyH this w) = freeLight w
    \<and> lightManager (update env currentTime keyH this w) = lightManager w
    \<and> isShotLightPresent (update env currentTime keyH this w) = isShotLightPresent w
    \<and> lastShotLightChange (update env currentTime keyH this w) = lastShotLightChange w"
  by (simp add: update_expired [OF assms] map_find_erase map_find_erase_other)

theorem expired_shot_only_deregistered_witness:
  "vec_z (getModelPosition (modelHeap beyondBoundary 0)) < - 50.0
   \<and> update collaborators 1 True 0 beyondBoundary
       = beyondBoundary\<lparr>modelManager := [(''enemyA'', 1), (''enemyB'', 2), (''enemyC'', 3)]\<rparr>"
proof -
  have "map_erase (getModelId (modelHeap beyondBoundary 0)) (modelManager beyondBoundary)
      = [(''enemyA'', 1), (''enemyB'', 2), (''enemyC'', 3)]"
    by (simp add: beyondBoundary_fields model_fields map_erase_def)
  then show ?thesis
    using expired_shot_only_deregistered [OF beyondBoundary_expired, of collaborators 1 True]
      beyondBoundary_expired
    by simp
qed

text \<open>
  C7. An update that comes within 0.5 seconds of the last accepted toggle neither flips
  \<open>isShotLightPresent\<close> nor moves \<open>lastShotLightChange\<close>, whatever the key and whichever
  shot is updated. In particular, when a toggle is accepted at \<open>t1\<close> (on a shot within
  the boundary, more than 0.5 seconds after the toggle before) and H is pressed again at
  \<open>t2\<close> with \<open>t2 - t1 \<le> 0.5\<close>, on the same or on another shot, only the first toggle
  takes effect and the timestamp stays \<open>t1\<close>.
\<close>

theorem toggle_debounced:
  assumes "currentTime - lastShotLightChange w \<le> 0.5"
    and "\<not> vec_z (getModelPosition (modelHeap w' first)) < - 50.0"
    and "t1 - lastShotLightChange w' > 0.5"
    and "t2 - t1 \<le> 0.5"
  shows "isShotLightPresent (update env currentTime keyH this w) = isShotLightPresent w
    \<and> lastShotLightChange (update env currentTime keyH this w) = lastShotLightChange w
    \<and> isShotLightPresent (update env t1 True first w') = (\<not> isShotLightPresent w')
    \<and> lastShotLightChange (update env t1 True first w') = t1
    \<and> isShotLightPresent (update env t2 True second (update env t1 True first w'))
        = (\<not> isShotLightPresent w')
    \<and> lastShotLightChange (update env t2 True second (update env t1 True first w')) = t1"
  using assms by (simp add: update_flags)


lemma battlefield_toggle_times:
  "(0.2 :: real) - lastShotLightChange (battlefield\<lparr>lastShotLightChange := 0\<rparr>) \<le> 0.5"
  "0.001 - lastShotLightChange battlefield > 0.5"
  "(0.401 :: real) - 0.001 \<le> 0.5"
  by (simp_all add: battlefield_fields)

theorem toggle_debounced_witness:
  "(0.2 :: real) - lastShotLightChange (battlefield\<lparr>lastShotLightChange := 0\<rparr>) \<le> 0.5
   \<and> \<not> vec_z (getModelPosition (modelHeap battlefield 0)) < - 50.0
   \<and> 0.001 - lastShotLightChange battlefield > 0.5
   \<and> (0.401 :: real) - 0.001 \<le> 0.5
   \<and> isShotLightPresent battlefield
   \<and> isShotLightPresent (update collaborators 0.001 True 0 battlefield)
       = (\<not> isShotLightPresent battlefield)
   \<and> isShotLightPresent
       (update collaborators 0.401 True 0 (update collaborators 0.001 True 0 battlefield))
       = (\<not> isShotLightPresent battlefield)
   \<and> lastShotLightChange
       (update collaborators 0.401 True 0 (update collaborators 0.001 True 0 battlefield))
       = 0.001"
  using toggle_debounced [OF battlefield_toggle_times(1) battlefield_in_range
      battlefield_toggle_times(2) battlefield_toggle_times(3), of collaborators True 0 0]
    battlefield_toggle_times battlefield_in_range battlefield_fields(4)
  by blast

text \<open>
  C6. In the update of a shot that is within the boundary, the registered models are
  scanned in the order of the registry, and a model is tested for collision with the
  shot when it is named \<open>Enemy\<close>. When no such model has collided, the registry is left
  as it was. Otherwise, for the first that has, the enemy and the shot are deregistered
  and the scan stops: every model before it is not a colliding enemy, and every entry
  under another identifier stays, so at most one collision is resolved per update, and
  an \<open>Enemy\<close> that does not overlap remains registered.
\<close>

theorem collision_resolves_first_enemy:
  assumes "\<not> vec_z (getModelPosition (modelHeap w this)) < - 50.0"
  shows "case firstCollision env this (advance env currentTime keyH this w) of
      None \<Rightarrow> modelManager (update env currentTime keyH this w) = modelManager w
    | Some enemy \<Rightarrow>
        getModelName (modelHeap w enemy) = ''Enemy''
        \<and> haveShapesCollided env (modelHeap (advance env currentTime keyH this w) this)
            (modelHeap (advance env currentTime keyH this w) enemy)
        \<and> (\<exists>i < length (getAllModels w). getAllModels w ! i = enemy
             \<and> (\<forall>j < i. \<not> (getModelName (modelHeap w (getAllModels w ! j)) = ''Enemy''
                  \<and> haveShapesCollided env (modelHeap (advance env currentTime keyH this w) this)
                      (modelHeap (advance env currentTime keyH this w) (getAllModels w ! j)))))
        \<and> modelManager (update env currentTime keyH this w)
            = map_erase (getModelId (modelHeap w this))
                (map_erase (getModelId (modelHeap w enemy)) (modelManager w))
        \<and> map_find (getModelId (modelHeap w enemy))
              (modelManager (update env currentTime keyH this w)) = None
        \<and> map_find (getModelId (modelHeap w this))
              (modelManager (update env currentTime keyH this w)) = None
        \<and> (\<forall>k. k \<noteq> getModelId (modelHeap w this) \<and> k \<noteq> getModelId (modelHeap w enemy)
             \<longrightarrow> map_find k (modelManager (update env currentTime keyH this w))
                 = map_find k (modelManager w))"
proof (cases "firstCollision env this (advance env currentTime keyH this w)")
  case None
  then show ?thesis using modelManager_update [OF assms, of env currentTime keyH] by simp
next
  case (Some enemy)
  let ?w3 = "advance env currentTime keyH this w"
  let ?P = "\<lambda>model. getModelName (modelHeap ?w3 model) = ''Enemy''
                  \<and> haveShapesCollided env (modelHeap ?w3 this) (modelHeap ?w3 model)"
  from Some have f: "find ?P (getAllModels w) = Some enemy"
    by (simp add: firstCollision_def getAllModels_advance)
  then obtain i where i: "i < length (getAllModels w)" "?P (getAllModels w ! i)"
      "enemy = getAllModels w ! i" "\<forall>j<i. \<not> ?P (getAllModels w ! j)"
    unfolding find_Some_iff by blast
  have m: "modelManager (update env currentTime keyH this w)
      = map_erase (getModelId (modelHeap w this))
          (map_erase (getModelId (modelHeap w enemy)) (modelManager w))"
    using modelManager_update [OF assms, of env currentTime keyH] Some by simp
  have name: "getModelName (modelHeap w enemy) = ''Enemy''"
    using i(2,3) by (simp add: getModelId_advance)
  have hit: "haveShapesCollided env (modelHeap ?w3 this) (modelHeap ?w3 enemy)"
    using i(2,3) by simp
  have first: "\<exists>i < length (getAllModels w). getAllModels w ! i = enemy
             \<and> (\<forall>j < i. \<not> (getModelName (modelHeap w (getAllModels w ! j)) = ''Enemy''
                  \<and> haveShapesCollided env (modelHeap ?w3 this) (modelHeap ?w3 (getAllModels w ! j))))"
    using i by (auto simp: getModelId_advance)
  have others: "\<forall>k. k \<noteq> getModelId (modelHeap w this) \<and> k \<noteq> getModelId (modelHeap w enemy)
             \<longrightarrow> map_find k (modelManager (update env currentTime keyH this w))
                 = map_find k (modelManager w)"
    by (simp add: m map_find_erase_other)
  have gone: "map_find (getModelId (modelHeap w enemy))
        (modelManager (update env currentTime keyH this w)) = None"
      "map_find (getModelId (modelHeap w this))
        (modelManager (update env currentTime keyH this w)) = None"
    by (simp_all add: m map_find_erase map_find_erase_erase)
  show ?thesis using Some name hit first m gone others by simp
qed

theorem collision_resolves_first_enemy_witness:
  "\<not> vec_z (getModelPosition (modelHeap battlefield 0)) < - 50.0
   \<and> firstCollision collaborators 0 (advance collaborators 0.001 False 0 battlefield) = Some 1
   \<and> haveShapesCollided collaborators
       (modelHeap (advance collaborators 0.001 False 0 battlefield) 0)
       (modelHeap (advance collaborators 0.001 False 0 battlefield) 2)
   \<and> modelManager (update collaborators 0.001 False 0 battlefield)
       = [(''enemyB'', 2), (''enemyC'', 3)]"
proof -
  note t = collision_resolves_first_enemy [OF battlefield_in_range, of collaborators "0.001" False,
      unfolded battlefield_firstCollision option.case]
  have "modelManager (update collaborators 0.001 False 0 battlefield)
      = map_erase (getModelId (modelHeap battlefield 0))
          (map_erase (getModelId (modelHeap battlefield 1)) (modelManager battlefield))"
    using t by blast
  also have "\<dots> = [(''enemyB'', 2), (''enemyC'', 3)]"
    by (simp add: battlefield_fields battlefieldModels_at model_fields map_erase_def)
  finally show ?thesis
    using battlefield_in_range battlefield_firstCollision battlefield_second_hit by blast
qed

text \<open>
  C2 (as the spec states it, refuted). A shot at \<open>z = -49.9\<close>, updated with
  \<open>deltaTime = 0.002\<close>, is moved to \<open>z = -50.1\<close> and is still among the registered models
  after the call.
\<close>

theorem shot_crossing_boundary_counterexample:
  "vec_z (getModelPosition (modelHeap nearBoundary 0)) = - 49.9
   \<and> 0.002 - lastTime (shotHeap nearBoundary 0) = 0.002
   \<and> vec_z (getModelPosition (modelHeap (update collaborators 0.002 False 0 nearBoundary) 0)) = - 50.1
   \<and> 0 \<in> set (getAllModels (update collaborators 0.002 False 0 nearBoundary))"
proof -
  have "0 \<in> set (getAllModels (update collaborators 0.002 False 0 nearBoundary))"
    unfolding getAllModels_def nearBoundary_stays_registered
    by (simp add: nearBoundary_fields)
  then show ?thesis
    using nearBoundary_start nearBoundary_moved by blast
qed

text \<open>
  C2 (amended). A shot at \<open>z = -49.9\<close> at the start of an update with
  \<open>deltaTime = 0.002\<close> is moved to \<open>z = -50.1\<close>, past the boundary, by that call. The
  boundary is checked on the position at the start of a call, so this call does not
  deregister the shot for it: when the shot has collided with no enemy, the registry is
  unchanged. The next update of the shot, whenever it comes, deregisters it.
\<close>

theorem shot_crossing_boundary:
  assumes "vec_z (getModelPosition (modelHeap w this)) = - 49.9"
    and "currentTime - lastTime (shotHeap w this) = 0.002"
  shows "vec_z (getModelPosition (modelHeap (update env currentTime keyH this w) this)) = - 50.1
    \<and> (firstCollision env this (advance env currentTime keyH this w) = None
         \<longrightarrow> modelManager (update env currentTime keyH this w) = modelManager w)
    \<and> map_find (getModelId (modelHeap w this))
         (modelManager (update env nextTime nextKeyH this (update env currentTime keyH this w)))
       = None"
proof -
  have r: "\<not> vec_z (getModelPosition (modelHeap w this)) < - 50.0"
    using assms(1) by simp
  let ?w1 = "update env currentTime keyH this w"
  have z: "vec_z (getModelPosition (modelHeap ?w1 this)) = - 50.1"
    using assms by (simp add: modelHeap_update [OF r] advance_frame vec3_minus_def)
  have i: "getModelId (modelHeap ?w1 this) = getModelId (modelHeap w this)"
    by (simp add: modelHeap_update [OF r] advance_frame)
  have "vec_z (getModelPosition (modelHeap ?w1 this)) < - 50.0"
    using z by simp
  then have "modelManager (update env nextTime nextKeyH this ?w1)
      = map_erase (getModelId (modelHeap w this)) (modelManager ?w1)"
    by (simp add: update_expired i)
  then have gone: "map_find (getModelId (modelHeap w this))
      (modelManager (update env nextTime nextKeyH this ?w1)) = None"
    by (simp add: map_find_erase)
  have stays: "firstCollision env this (advance env currentTime keyH this w) = None
      \<longrightarrow> modelManager ?w1 = modelManager w"
    using modelManager_update [OF r, of env currentTime keyH] by simp
  show ?thesis using z stays gone by blast
qed

theorem shot_crossing_boundary_witness:
  "vec_z (getModelPosition (modelHeap nearBoundary 0)) = - 49.9
   \<and> 0.002 - lastTime (shotHeap nearBoundary 0) = 0.002
   \<and> firstCollision collaborators 0 (advance collaborators 0.002 False 0 nearBoundary) = None
   \<and> vec_z (getModelPosition (modelHeap (update collaborators 0.002 False 0 nearBoundary) 0)) = - 50.1
   \<and> modelManager (update collaborators 0.002 False 0 nearBoundary) = modelManager nearBoundary
   \<and> map_find (getModelId (modelHeap nearBoundary 0))
       (modelManager (update collaborators 0.004 False 0
          (update collaborators 0.002 False 0 nearBoundary))) = None"
  using shot_crossing_boundary [OF nearBoundary_start, of collaborators False "0.004" False]
    nearBoundary_start nearBoundary_no_collision
  by blast


end
